theory Spec2Isabelle
  imports Complex_Main "HOL-Library.Char_ord" "HOL-Library.List_Lexorder"
begin

section \<open>Python strings\<close>

text \<open>
  A Python \<open>str\<close> is a sequence of code points. The model keeps the code points below
  256, one \<open>char\<close> each (so \<open>CHR 0xA0\<close> is U+00A0, not a byte of an encoding); a text
  with a higher code point is outside the model. \<open>is_space\<close> holds of exactly the code
  points below 256 that \<open>str.isspace\<close>, \<open>str.strip\<close> and the class \<open>\s\<close> of a
  \<open>str\<close> pattern accept: U+0009 to U+000D, U+001C to U+001F, the space, U+0085 and
  U+00A0.
\<close>

definition is_space :: "char \<Rightarrow> bool" where
  "is_space c = (c = CHR 0x09 \<or> c = CHR 0x0A \<or> c = CHR 0x0B \<or> c = CHR 0x0C \<or> c = CHR 0x0D
     \<or> c = CHR 0x1C \<or> c = CHR 0x1D \<or> c = CHR 0x1E \<or> c = CHR 0x1F \<or> c = CHR 0x20
     \<or> c = CHR 0x85 \<or> c = CHR 0xA0)"

definition is_ident_start :: "char \<Rightarrow> bool" where
  "is_ident_start c =
     (c \<in> set ''abcdefghijklmnopqrstuvwxyzABCDEFGHIJKLMNOPQRSTUVWXYZ_'')"

definition is_ident_char :: "char \<Rightarrow> bool" where
  "is_ident_char c = (is_ident_start c \<or> c \<in> set ''0123456789'')"

definition lstrip :: "string \<Rightarrow> string" where
  "lstrip s = dropWhile is_space s"

definition rstrip :: "string \<Rightarrow> string" where
  "rstrip s = rev (dropWhile is_space (rev s))"

definition strip :: "string \<Rightarrow> string" where
  "strip s = rstrip (lstrip s)"

fun starts_with :: "string \<Rightarrow> string \<Rightarrow> bool" where
  "starts_with [] s = True"
| "starts_with (p # ps) [] = False"
| "starts_with (p # ps) (c # cs) = (p = c \<and> starts_with ps cs)"

definition ends_with :: "string \<Rightarrow> string \<Rightarrow> bool" where
  "ends_with suffix s = starts_with (rev suffix) (rev s)"

text \<open>\<open>contains sub s\<close> is Python's \<open>sub in s\<close>.\<close>

fun contains :: "string \<Rightarrow> string \<Rightarrow> bool" where
  "contains sub [] = (sub = [])"
| "contains sub (c # cs) = (starts_with sub (c # cs) \<or> contains sub cs)"

text \<open>\<open>join sep xs\<close> is \<open>sep.join(xs)\<close>.\<close>

fun join :: "string \<Rightarrow> string list \<Rightarrow> string" where
  "join sep [] = []"
| "join sep [x] = x"
| "join sep (x # y # ys) = x @ sep @ join sep (y # ys)"

text \<open>\<open>replace_char a b s\<close> is \<open>s.replace(a, b)\<close> for one-character \<open>a\<close>, \<open>b\<close>.\<close>

definition replace_char :: "char \<Rightarrow> char \<Rightarrow> string \<Rightarrow> string" where
  "replace_char a b s = map (\<lambda>c. if c = a then b else c) s"

text \<open>\<open>last_component s\<close> is \<open>s.split('.')[-1]\<close>; \<open>rsplit_head s\<close> is
  \<open>s.rsplit('.', 1)[0]\<close>.\<close>

definition last_component :: "string \<Rightarrow> string" where
  "last_component s = rev (takeWhile (\<lambda>c. c \<noteq> CHR ''.'') (rev s))"

definition rsplit_head :: "string \<Rightarrow> string" where
  "rsplit_head s =
     (if CHR ''.'' \<in> set s then rev (drop 1 (dropWhile (\<lambda>c. c \<noteq> CHR ''.'') (rev s))) else s)"

text \<open>\<open>str_int\<close> is \<open>str\<close> on an integer: its decimal digits, with a sign.\<close>

definition digit_char :: "nat \<Rightarrow> char" where
  "digit_char d = ''0123456789'' ! d"

function digits_of :: "nat \<Rightarrow> string" where
  "digits_of n = (if n < 10 then [digit_char n] else digits_of (n div 10) @ [digit_char (n mod 10)])"
  by pat_completeness auto
termination
  by (relation "measure id") auto

definition str_int :: "int \<Rightarrow> string" where
  "str_int i = (if i < 0 then CHR ''-'' # digits_of (nat (- i)) else digits_of (nat i))"


section \<open>Data model (schemas.py)\<close>

text \<open>
  An exception raised by code the core does not own, given by what \<open>str\<close> of it does,
  which is all the core does with such an exception once it has caught it (its handlers
  print it): \<open>str\<close> returns a message, raises another exception under \<open>Exception\<close>
  (an overridden \<open>__str__\<close> can), or raises one that is no \<open>Exception\<close>.
\<close>

datatype exn = Message string | StrRaises exn | StrEscapes

text \<open>What a call into code the core does not own comes to: it returns a value, it
  raises an exception that \<open>except Exception\<close> catches, or it raises one that no
  \<open>except Exception\<close> catches (SystemExit, KeyboardInterrupt, GeneratorExit) and that
  therefore leaves every handler of the core.\<close>

datatype 'a outcome = Returns 'a | Raises exn | Escapes

fun str_exn :: "exn \<Rightarrow> string outcome" where
  "str_exn (Message s) = Returns s"
| "str_exn (StrRaises e) = Raises e"
| "str_exn StrEscapes = Escapes"

text \<open>
  Python values as far as the core looks at them: whether a value is \<open>None\<close>, whether it
  is a function object (\<open>PyFunc\<close> carries the source text that defined it), and what
  formatting it for a print does (\<open>PyObject\<close> carries that outcome; for the other
  values it returns).
\<close>

datatype pyval = PyNone | PyInt int | PyStr string | PyFunc string | PyObject "string outcome"

fun callable :: "pyval \<Rightarrow> bool" where
  "callable (PyFunc src) = True"
| "callable v = False"

fun py_str :: "pyval \<Rightarrow> string outcome" where
  "py_str PyNone = Returns ''None''"
| "py_str (PyInt i) = Returns (str_int i)"
| "py_str (PyStr s) = Returns s"
| "py_str (PyFunc src) = Returns ''<function>''"
| "py_str (PyObject formatted) = formatted"

text \<open>\<open>if self.debug: print(f"... {x}")\<close>: with the flag set what is
  printed is evaluated, and what that raises leaves the statement. The printing itself is not modelled:
  \<open>sys.stdout\<close> is taken to accept every text.\<close>

definition debug_print :: "bool \<Rightarrow> 'a outcome \<Rightarrow> unit outcome" where
  "debug_print dbg text =
     (if dbg then
        (case text of
           Returns x \<Rightarrow> Returns ()
         | Raises e \<Rightarrow> Raises e
         | Escapes \<Rightarrow> Escapes)
      else Returns ())"

text \<open>The three values an exception hook receives. Of the type and the value the code
  reads \<open>exc_type.__name__\<close> and \<open>str(exc_value)\<close>. Both run code the core does not own
  (\<open>__str__\<close> can be overridden, and a caller of \<open>handle\<close> can pass a value without
  \<open>__name__\<close>), so both are outcomes; both are taken to give the same outcome each time
  they are evaluated.\<close>

record exc_info =
  exc_type_name :: "string outcome"
  exc_str :: "string outcome"

text \<open>A traceback head, with the parts of its frame that \<open>from_traceback\<close> reads:
  \<open>tb.tb_lineno\<close>, \<open>frame.f_code.co_filename\<close>, \<open>frame.f_code.co_name\<close>,
  \<open>frame.f_globals.get('__name__')\<close> (\<open>None\<close> when absent) and \<open>frame.f_locals\<close>
  (\<open>None\<close> when copying it raises).\<close>

record traceback =
  tb_lineno :: int
  co_filename :: string
  co_name :: string
  globals_name :: "string option"
  f_locals :: "(string \<times> pyval) list option"

record ErrorContext =
  exception_type :: string
  exception_message :: string
  traceback_str :: string
  target_fqn :: string
  source_code :: string
  file_path :: string
  line_number :: int
  local_vars :: "(string \<times> pyval) list"

text \<open>A Python float: a finite value, idealised as a real, or one of the three values
  that are not finite.\<close>

datatype pyfloat = Finite real | PosInf | NegInf | NaN

text \<open>\<open>PatchProposal\<close>; the class declares \<open>confidence: float = 0.8\<close> and
  \<open>test_cases: List[str] = []\<close> as the defaults of a construction that omits them.\<close>

record PatchProposal =
  patch_code :: string
  explanation :: string
  confidence :: pyfloat
  test_cases :: "string list"

definition PatchProposal_default_confidence :: pyfloat where
  "PatchProposal_default_confidence = Finite 0.8"

text \<open>The source window of \<open>from_traceback\<close>: the lines
  \<open>range(max(1, line_number - 2), line_number + 3)\<close> that the line cache has, the
  failing one marked. \<open>getline\<close> is \<open>linecache.getline\<close>, which returns the empty
  string for a line or a file it cannot read and never raises.\<close>

definition source_line :: "(string \<Rightarrow> int \<Rightarrow> string) \<Rightarrow> string \<Rightarrow> int \<Rightarrow> int \<Rightarrow> string list" where
  "source_line getline path lineno i =
     (let line = getline path i
      in if line = [] then []
         else [(if i = lineno then ''>>> '' else ''    '') @ str_int i @ '': '' @ rstrip line])"

definition source_window :: "(string \<Rightarrow> int \<Rightarrow> string) \<Rightarrow> string \<Rightarrow> int \<Rightarrow> string" where
  "source_window getline path lineno =
     join ''\<newline>''
       (concat (map (source_line getline path lineno) [max 1 (lineno - 2) .. lineno + 2]))"

text \<open>Evaluating \<open>exc_type.__name__\<close> and then \<open>str(exc_value)\<close>, as the constructor
  call of \<open>from_traceback\<close> and the debug prints of \<open>handle\<close> and of the hook do.\<close>

definition describe_exception :: "exc_info \<Rightarrow> (string \<times> string) outcome" where
  "describe_exception exc =
     (case exc_type_name exc of
        Raises e \<Rightarrow> Raises e
      | Escapes \<Rightarrow> Escapes
      | Returns name \<Rightarrow>
          (case exc_str exc of
             Raises e \<Rightarrow> Raises e
           | Escapes \<Rightarrow> Escapes
           | Returns message \<Rightarrow> Returns (name, message)))"

text \<open>\<open>ErrorContext.from_traceback\<close>. \<open>format_exception\<close> is
  \<open>''.join(traceback.format_exception(...))\<close>, which formats an exception whose
  \<open>__str__\<close> fails without raising. The name and the message are evaluated in both
  branches and outside any \<open>try\<close>: what either raises leaves the function.\<close>

definition from_traceback ::
  "(string \<Rightarrow> int \<Rightarrow> string) \<Rightarrow> (exc_info \<Rightarrow> traceback \<Rightarrow> string)
     \<Rightarrow> exc_info \<Rightarrow> traceback option \<Rightarrow> ErrorContext outcome" where
  "from_traceback getline format_exception exc tb_opt =
     (case describe_exception exc of
        Raises e \<Rightarrow> Raises e
      | Escapes \<Rightarrow> Escapes
      | Returns (name, message) \<Rightarrow>
          (case tb_opt of
             None \<Rightarrow>
               Returns
                 \<lparr> exception_type = name,
                   exception_message = message,
                   traceback_str = name @ '': '' @ message,
                   target_fqn = ''unknown'',
                   source_code = '''',
                   file_path = ''unknown'',
                   line_number = 0,
                   local_vars = [] \<rparr>
           | Some tb \<Rightarrow>
               Returns
                 \<lparr> exception_type = name,
                   exception_message = message,
                   traceback_str = format_exception exc tb,
                   target_fqn =
                     (if co_name tb = ''<module>'' then ''unknown.module''
                      else (case globals_name tb of None \<Rightarrow> ''unknown'' | Some m \<Rightarrow> m)
                             @ ''.'' @ co_name tb),
                   source_code = source_window getline (co_filename tb) (tb_lineno tb),
                   file_path = co_filename tb,
                   line_number = tb_lineno tb,
                   local_vars = (case f_locals tb of None \<Rightarrow> [] | Some vs \<Rightarrow> vs) \<rparr>))"


section \<open>LLM patch generator (llm_client.py)\<close>

text \<open>A parsed JSON document, as \<open>json.loads\<close> returns it: an integer literal is an
  \<open>int\<close> of any size, any other number a float (\<open>1e400\<close>, \<open>Infinity\<close> and \<open>NaN\<close>
  parse to floats that are not finite), an object is a dictionary, kept as an association
  list that \<open>map_of\<close> reads.\<close>

datatype json = JNull | JBool bool | JInt int | JFloat pyfloat | JStr string
  | JArr "json list" | JObj "(string \<times> json) list"

datatype py_error = JSONDecodeError | AttributeError | TypeError | ValueError
  | OverflowError | ValidationError

text \<open>\<open>dict_get kvs k d\<close> is \<open>kvs.get(k, d)\<close>.\<close>

definition dict_get :: "(string \<times> json) list \<Rightarrow> string \<Rightarrow> json \<Rightarrow> json" where
  "dict_get kvs k d = (case map_of kvs k of None \<Rightarrow> d | Some v \<Rightarrow> v)"

text \<open>\<open>float(x)\<close> on a parsed JSON value. A float is returned as it is and a boolean
  becomes 1.0 or 0.0. An \<open>int\<close> converts to the nearest float and raises OverflowError
  when that is beyond the largest one, that is from \<open>2^1024 - 2^970\<close> on in absolute
  value; the rounding of a smaller integer is not modelled. A string converts when
  \<open>float_of_str\<close> (Python's float parser, a parameter) reads it and raises ValueError
  otherwise. \<open>None\<close>, lists and dictionaries raise TypeError.\<close>

definition float_overflow_bound :: int where
  "float_overflow_bound = 2 ^ 1024 - 2 ^ 970"

fun py_float :: "(string \<Rightarrow> pyfloat option) \<Rightarrow> json \<Rightarrow> py_error + pyfloat" where
  "py_float float_of_str (JFloat x) = Inr x"
| "py_float float_of_str (JInt i) =
     (if \<bar>i\<bar> < float_overflow_bound then Inr (Finite (real_of_int i)) else Inl OverflowError)"
| "py_float float_of_str (JBool b) = Inr (Finite (if b then 1 else 0))"
| "py_float float_of_str (JStr s) =
     (case float_of_str s of None \<Rightarrow> Inl ValueError | Some x \<Rightarrow> Inr x)"
| "py_float float_of_str JNull = Inl TypeError"
| "py_float float_of_str (JArr xs) = Inl TypeError"
| "py_float float_of_str (JObj kvs) = Inl TypeError"

text \<open>The field types \<open>PatchProposal\<close> declares (\<open>str\<close>, \<open>List[str]\<close>), checked when the
  model is constructed, as pydantic (version 2) checks them: a value of another type is a
  validation error.\<close>

fun as_str :: "json \<Rightarrow> string option" where
  "as_str (JStr s) = Some s"
| "as_str j = None"

fun as_strs :: "json list \<Rightarrow> string list option" where
  "as_strs [] = Some []"
| "as_strs (JStr s # js) = (case as_strs js of None \<Rightarrow> None | Some ss \<Rightarrow> Some (s # ss))"
| "as_strs (j # js) = None"

fun as_str_list :: "json \<Rightarrow> string list option" where
  "as_str_list (JArr js) = as_strs js"
| "as_str_list j = None"

text \<open>The construction both parsing paths of the generator share:
  \<^verbatim>\<open>PatchProposal(patch_code=patch_data.get('patch_code', ''),
                explanation=patch_data.get('explanation', ''),
                confidence=float(patch_data.get('confidence', 0.5)),
                test_cases=patch_data.get('test_cases', []))\<close>
  \<open>.get\<close> on a value that is not a dictionary raises AttributeError; the arguments are
  evaluated before the constructor validates them.\<close>

definition build_proposal ::
  "(string \<Rightarrow> pyfloat option) \<Rightarrow> json \<Rightarrow> py_error + PatchProposal" where
  "build_proposal float_of_str patch_data =
     (case patch_data of
        JObj kvs \<Rightarrow>
          (case py_float float_of_str (dict_get kvs ''confidence'' (JFloat (Finite 0.5))) of
             Inl e \<Rightarrow> Inl e
           | Inr c \<Rightarrow>
               (case as_str (dict_get kvs ''patch_code'' (JStr [])) of
                  None \<Rightarrow> Inl ValidationError
                | Some code \<Rightarrow>
                    (case as_str (dict_get kvs ''explanation'' (JStr [])) of
                       None \<Rightarrow> Inl ValidationError
                     | Some expl \<Rightarrow>
                         (case as_str_list (dict_get kvs ''test_cases'' (JArr [])) of
                            None \<Rightarrow> Inl ValidationError
                          | Some tests \<Rightarrow>
                              Inr \<lparr> patch_code = code, explanation = expl,
                                    confidence = c, test_cases = tests \<rparr>))))
      | _ \<Rightarrow> Inl AttributeError)"

text \<open>The recovery pattern \<^verbatim>\<open>re.search(r'```json\s*(\{.*?\})\s*```', text, re.DOTALL)\<close>,
  returning group 1. At a start where \<^verbatim>\<open>```json\<close> matches, \<open>\s*\<close> must be followed by
  an opening brace (taking fewer blanks leaves a blank there), and the lazy \<open>.*?\<close> stops
  at the first closing brace that optional blanks and the closing fence follow.\<close>

definition fence :: string where
  "fence = [CHR 0x60, CHR 0x60, CHR 0x60]"

definition json_fence :: string where
  "json_fence = fence @ ''json''"

fun find_close :: "string \<Rightarrow> string \<Rightarrow> string option" where
  "find_close acc [] = None"
| "find_close acc (c # cs) =
     (if c = CHR ''}'' \<and> starts_with fence (dropWhile is_space cs) then Some (rev (c # acc))
      else find_close (c # acc) cs)"

definition match_fenced_at :: "string \<Rightarrow> string option" where
  "match_fenced_at s =
     (if starts_with json_fence s then
        (case dropWhile is_space (drop (length json_fence) s) of
           [] \<Rightarrow> None
         | c # rest \<Rightarrow>
             (if c = CHR ''{'' then
                (case find_close [] rest of None \<Rightarrow> None | Some body \<Rightarrow> Some (c # body))
              else None))
      else None)"

fun search_fenced :: "string \<Rightarrow> string option" where
  "search_fenced [] = None"
| "search_fenced (c # cs) =
     (case match_fenced_at (c # cs) of Some g \<Rightarrow> Some g | None \<Rightarrow> search_fenced cs)"

text \<open>What \<open>json.loads\<close> comes to on a text: the parsed value, JSONDecodeError, or
  another exception (RecursionError on a text nested too deep).\<close>

datatype loads_result = Parsed json | DecodeError | LoadsRaises

text \<open>What the first part of the \<open>try\<close> block comes to, from building the prompt
  (which formats the local variables with \<open>json.dumps(..., default=str)\<close>) to the
  request: it raises (a local variable that cannot be formatted, a transport or API
  error), it is left by an exception that is no \<open>Exception\<close> (a KeyboardInterrupt while
  it waits), or it returns a message whose content is a text or \<open>None\<close>.\<close>

datatype api_outcome = ApiRaises exn | ApiEscapes | ApiContent "string option"

text \<open>The handler \<open>except Exception as e\<close> around the whole body: it prints the exception
  and returns \<open>None\<close>. The exceptions that the body itself raises (AttributeError,
  TypeError, ValueError, OverflowError, a validation error, RecursionError) have a
  message.\<close>

definition api_error_handler :: "exn \<Rightarrow> (PatchProposal \<times> string) option outcome" where
  "api_error_handler e =
     (case str_exn e of
        Returns message \<Rightarrow> Returns None
      | Raises e' \<Rightarrow> Raises e'
      | Escapes \<Rightarrow> Escapes)"

text \<open>\<open>LLMClient.analyze_exception_and_generate_patch_with_raw\<close>, given the outcome of
  the request. JSONDecodeError of the first parse starts the recovery pass; JSONDecodeError
  and AttributeError of the recovery pass end in the \<open>return None\<close> of its own handler;
  every other exception under \<open>Exception\<close>, of either pass, ends in the handler
  \<open>except Exception\<close> around the whole body.\<close>

definition analyze_exception_and_generate_patch_with_raw ::
  "(string \<Rightarrow> loads_result) \<Rightarrow> (string \<Rightarrow> pyfloat option) \<Rightarrow> api_outcome
     \<Rightarrow> (PatchProposal \<times> string) option outcome" where
  "analyze_exception_and_generate_patch_with_raw json_loads float_of_str outcome =
     (case outcome of
        ApiEscapes \<Rightarrow> Escapes
      | ApiRaises e \<Rightarrow> api_error_handler e
      | ApiContent None \<Rightarrow> Returns None
      | ApiContent (Some content) \<Rightarrow>
          (let response_text = strip content
           in case json_loads response_text of
                Parsed patch_data \<Rightarrow>
                  (case build_proposal float_of_str patch_data of
                     Inl e \<Rightarrow> Returns None
                   | Inr proposal \<Rightarrow> Returns (Some (proposal, response_text)))
              | LoadsRaises \<Rightarrow> Returns None
              | DecodeError \<Rightarrow>
                  (case search_fenced response_text of
                     None \<Rightarrow> Returns None
                   | Some group1 \<Rightarrow>
                       (case json_loads group1 of
                          DecodeError \<Rightarrow> Returns None
                        | LoadsRaises \<Rightarrow> Returns None
                        | Parsed patch_data \<Rightarrow>
                            (case build_proposal float_of_str patch_data of
                               Inl e \<Rightarrow> Returns None
                             | Inr proposal \<Rightarrow> Returns (Some (proposal, response_text)))))))"


section \<open>Patch applier (orchestrator.py)\<close>

text \<open>\<open>_extract_function_name\<close>:
  \<^verbatim>\<open>re.search(r'def\s+([a-zA-Z_][a-zA-Z0-9_]*)\s*\(', patch_code)\<close>, returning group 1 of the
  leftmost match. Each greedy part is followed by a character it cannot itself match, so
  giving characters back never turns a failure into a match.\<close>

definition match_def_at :: "string \<Rightarrow> string option" where
  "match_def_at s =
     (if starts_with ''def'' s then
        (case drop 3 s of
           [] \<Rightarrow> None
         | w # ws \<Rightarrow>
             (if is_space w then
                (case dropWhile is_space ws of
                   [] \<Rightarrow> None
                 | c # cs \<Rightarrow>
                     (if is_ident_start c then
                        (case dropWhile is_space (dropWhile is_ident_char cs) of
                           [] \<Rightarrow> None
                         | d # ds \<Rightarrow>
                             (if d = CHR ''('' then Some (c # takeWhile is_ident_char cs)
                              else None))
                      else None))
              else None))
      else None)"

fun extract_function_name :: "string \<Rightarrow> string option" where
  "extract_function_name [] = None"
| "extract_function_name (c # cs) =
     (case match_def_at (c # cs) of
        Some name \<Rightarrow> Some name
      | None \<Rightarrow> extract_function_name cs)"

text \<open>A module's symbol table (\<open>module.__dict__\<close>), and the loaded and loadable modules:
  a store from module names to symbol tables, \<open>__main__\<close> among them.\<close>

type_synonym namespace = "string \<rightharpoonup> pyval"

type_synonym module_store = "string \<Rightarrow> namespace"

text \<open>Attribute lookup on a module object is more than a lookup in its symbol table: it
  also finds what the module type provides (\<open>__init__\<close>, \<open>__repr__\<close>, \<open>__class__\<close> and
  so on), and it calls a \<open>__getattr__\<close> the module defines. It is a parameter here, a
  function of the symbol table and the name (so the same lookup gives the same outcome
  each time): the value found, \<open>None\<close> for AttributeError, or another exception.\<close>

type_synonym attr_lookup = "namespace \<Rightarrow> string \<Rightarrow> pyval option outcome"

text \<open>\<open>hasattr(module, name)\<close> catches AttributeError only.\<close>

definition hasattr :: "attr_lookup \<Rightarrow> namespace \<Rightarrow> string \<Rightarrow> bool outcome" where
  "hasattr lookup ns name =
     (case lookup ns name of
        Returns None \<Rightarrow> Returns False
      | Returns (Some v) \<Rightarrow> Returns True
      | Raises e \<Rightarrow> Raises e
      | Escapes \<Rightarrow> Escapes)"

text \<open>\<open>getattr(module, name, None)\<close> gives the default for AttributeError only.\<close>

definition getattr_or_none :: "attr_lookup \<Rightarrow> namespace \<Rightarrow> string \<Rightarrow> pyval outcome" where
  "getattr_or_none lookup ns name =
     (case lookup ns name of
        Returns None \<Rightarrow> Returns PyNone
      | Returns (Some v) \<Rightarrow> Returns v
      | Raises e \<Rightarrow> Raises e
      | Escapes \<Rightarrow> Escapes)"

text \<open>\<open>f"{getattr(module, name)}"\<close>, the text of the debug prints that show the old and
  the new function: the attribute, formatted.\<close>

definition attribute_error :: exn where
  "attribute_error = Message ''module has no such attribute''"

definition getattr_str :: "attr_lookup \<Rightarrow> namespace \<Rightarrow> string \<Rightarrow> string outcome" where
  "getattr_str lookup ns name =
     (case lookup ns name of
        Returns None \<Rightarrow> Raises attribute_error
      | Returns (Some v) \<Rightarrow> py_str v
      | Raises e \<Rightarrow> Raises e
      | Escapes \<Rightarrow> Escapes)"

text \<open>What \<open>importlib.import_module\<close> does with a module path: it returns the module,
  raises ImportError, raises another exception under \<open>Exception\<close> (an empty or relative
  path, or the module's own code failing), or is left by an exception that is no
  \<open>Exception\<close> (the module's code calling \<open>sys.exit\<close>).\<close>

datatype import_outcome = Imported | ImportFails | ImportCrashes | ImportEscapes

text \<open>\<open>_get_function_namespace\<close>; a result names the module, \<open>None\<close> is the
  \<open>return None\<close> of the handler \<open>except Exception\<close> around the whole body, which prints
  nothing. The call never raises under \<open>Exception\<close>.\<close>

definition get_function_namespace ::
  "(string \<Rightarrow> import_outcome) \<Rightarrow> attr_lookup \<Rightarrow> module_store \<Rightarrow> string
     \<Rightarrow> string option outcome" where
  "get_function_namespace importer lookup mods fqn =
     (case hasattr lookup (mods ''__main__'') (last_component fqn) of
        Escapes \<Rightarrow> Escapes
      | Raises e \<Rightarrow> Returns None
      | Returns True \<Rightarrow> Returns (Some ''__main__'')
      | Returns False \<Rightarrow>
          (if rsplit_head fqn \<noteq> ''unknown'' then
             (case importer (rsplit_head fqn) of
                Imported \<Rightarrow> Returns (Some (rsplit_head fqn))
              | ImportFails \<Rightarrow> Returns (Some ''__main__'')
              | ImportCrashes \<Rightarrow> Returns None
              | ImportEscapes \<Rightarrow> Escapes)
           else Returns (Some ''__main__'')))"

text \<open>\<open>exec(source, namespace.__dict__)\<close>. The source is compiled first: a text that is
  not valid Python raises SyntaxError before anything runs, so the symbol table is as it
  was. A valid text runs and either completes or raises, leaving the table as far as it
  got; what it raises is a SyntaxError (of a nested \<open>exec\<close>), another exception under
  \<open>Exception\<close>, or an exception that is no \<open>Exception\<close> (\<open>SystemExit\<close> of a patch that
  calls \<open>sys.exit\<close>, KeyboardInterrupt). \<open>source_valid\<close> (the parser) and \<open>run_source\<close>
  (the interpreter) are parameters. The effects of the executed text outside the symbol
  table it is given are not modelled.\<close>

datatype exec_error = SyntaxError | OtherException exn | NotAnException

datatype exec_outcome = Completed namespace | Raised exec_error namespace

definition py_exec ::
  "(string \<Rightarrow> bool) \<Rightarrow> (string \<Rightarrow> namespace \<Rightarrow> exec_outcome) \<Rightarrow> string \<Rightarrow> namespace
     \<Rightarrow> exec_outcome" where
  "py_exec source_valid run_source source ns =
     (if source_valid source then run_source source ns else Raised SyntaxError ns)"

text \<open>\<open>isinstance(e, Exception)\<close>: SyntaxError is a subclass of Exception.\<close>

fun is_Exception :: "exec_error \<Rightarrow> bool" where
  "is_Exception SyntaxError = True"
| "is_Exception (OtherException e) = True"
| "is_Exception NotAnException = False"

text \<open>\<open>str\<close> of an exception the \<open>exec\<close> raised; a SyntaxError has a message.\<close>

fun str_exec_error :: "exec_error \<Rightarrow> string outcome" where
  "str_exec_error SyntaxError = Returns ''invalid syntax''"
| "str_exec_error (OtherException e) = str_exn e"
| "str_exec_error NotAnException = Returns []"

text \<open>The end of \<open>_apply_llm_patch\<close>, "Verify the patch was applied":
  \<^verbatim>\<open>new_func = getattr(namespace, func_name, None)
  if new_func is None: return False
  if self.debug: print(f"DEBUG: New function: {getattr(namespace, func_name)}")
  return True\<close>\<close>

definition verify_patch :: "bool \<Rightarrow> attr_lookup \<Rightarrow> namespace \<Rightarrow> string \<Rightarrow> bool outcome" where
  "verify_patch dbg lookup ns func_name =
     (case getattr_or_none lookup ns func_name of
        Raises e \<Rightarrow> Raises e
      | Escapes \<Rightarrow> Escapes
      | Returns new_func \<Rightarrow>
          (if new_func = PyNone then Returns False
           else
             (case debug_print dbg (getattr_str lookup ns func_name) of
                Raises e \<Rightarrow> Raises e
              | Escapes \<Rightarrow> Escapes
              | Returns u \<Rightarrow> Returns True)))"

text \<open>The \<open>exec\<close> of the patch with its two handlers, tried in the order the source lists
  them: \<open>except Exception\<close> first, \<open>except SyntaxError\<close> second. \<open>Returns True\<close> is for
  going on to the verification, \<open>Returns False\<close> for the \<open>return False\<close> of a handler;
  an exception raised inside a handler, or one that neither handler takes, leaves the
  statement.\<close>

definition exec_patch ::
  "bool \<Rightarrow> attr_lookup \<Rightarrow> (string \<Rightarrow> bool) \<Rightarrow> (string \<Rightarrow> namespace \<Rightarrow> exec_outcome)
     \<Rightarrow> string \<Rightarrow> namespace \<Rightarrow> string \<Rightarrow> bool outcome \<times> namespace" where
  "exec_patch dbg lookup source_valid run_source source ns func_name =
     (case py_exec source_valid run_source source ns of
        Completed ns' \<Rightarrow> (Returns True, ns')
      | Raised exec_error ns' \<Rightarrow>
          (if is_Exception exec_error then
             (case hasattr lookup ns' func_name of
                Raises e \<Rightarrow> (Raises e, ns')
              | Escapes \<Rightarrow> (Escapes, ns')
              | Returns False \<Rightarrow> (Returns False, ns')
              | Returns True \<Rightarrow>
                  (case debug_print dbg (str_exec_error exec_error) of
                     Raises e \<Rightarrow> (Raises e, ns')
                   | Escapes \<Rightarrow> (Escapes, ns')
                   | Returns u \<Rightarrow> (Returns True, ns')))
           else if exec_error = SyntaxError then (Returns False, ns')
           else (Escapes, ns')))"

text \<open>The body of the \<open>try\<close> block of \<open>_apply_llm_patch\<close>: what it comes to, and the
  module store as it leaves it.\<close>

definition apply_try ::
  "bool \<Rightarrow> (string \<Rightarrow> import_outcome) \<Rightarrow> attr_lookup \<Rightarrow> (string \<Rightarrow> bool)
     \<Rightarrow> (string \<Rightarrow> namespace \<Rightarrow> exec_outcome)
     \<Rightarrow> ErrorContext \<Rightarrow> PatchProposal \<Rightarrow> module_store \<Rightarrow> bool outcome \<times> module_store" where
  "apply_try dbg importer lookup source_valid run_source error_context patch_proposal mods =
     (case extract_function_name (patch_code patch_proposal) of
        None \<Rightarrow> (Returns False, mods)
      | Some func_name \<Rightarrow>
          (case get_function_namespace importer lookup mods (target_fqn error_context) of
             Escapes \<Rightarrow> (Escapes, mods)
           | Raises e \<Rightarrow> (Raises e, mods)
           | Returns None \<Rightarrow> (Returns False, mods)
           | Returns (Some m) \<Rightarrow>
               (case hasattr lookup (mods m) func_name of
                  Escapes \<Rightarrow> (Escapes, mods)
                | Raises e \<Rightarrow> (Raises e, mods)
                | Returns False \<Rightarrow> (Returns False, mods)
                | Returns True \<Rightarrow>
                    (case debug_print dbg (getattr_str lookup (mods m) func_name) of
                       Escapes \<Rightarrow> (Escapes, mods)
                     | Raises e \<Rightarrow> (Raises e, mods)
                     | Returns u \<Rightarrow>
                         (case exec_patch dbg lookup source_valid run_source
                                 (patch_code patch_proposal) (mods m) func_name of
                            (Returns True, ns) \<Rightarrow>
                              (verify_patch dbg lookup ns func_name, mods(m := ns))
                          | (r, ns) \<Rightarrow> (r, mods(m := ns)))))))"

text \<open>\<open>_apply_llm_patch\<close>: the body, and the handler \<open>except Exception\<close> around it, which
  returns False (its \<open>traceback.print_exc()\<close> formats an exception whose \<open>__str__\<close>
  fails without raising). An exception that is no \<open>Exception\<close> passes the handler and
  leaves the call; the call never raises under \<open>Exception\<close>. \<open>dbg\<close> is the debug flag
  of the orchestrator.\<close>

definition apply_llm_patch ::
  "bool \<Rightarrow> (string \<Rightarrow> import_outcome) \<Rightarrow> attr_lookup \<Rightarrow> (string \<Rightarrow> bool)
     \<Rightarrow> (string \<Rightarrow> namespace \<Rightarrow> exec_outcome)
     \<Rightarrow> ErrorContext \<Rightarrow> PatchProposal \<Rightarrow> module_store \<Rightarrow> bool outcome \<times> module_store" where
  "apply_llm_patch dbg importer lookup source_valid run_source error_context patch_proposal mods =
     (case apply_try dbg importer lookup source_valid run_source error_context patch_proposal
             mods of
        (Raises e, mods') \<Rightarrow> (Returns False, mods')
      | (r, mods') \<Rightarrow> (r, mods'))"


section \<open>Session logger (debug_logger.py)\<close>

text \<open>The log directory: file names with what reading each file gives (\<open>Unreadable\<close>
  when \<open>open\<close> or \<open>read\<close> raises); \<open>None\<close> when the directory does not exist.\<close>

datatype file_entry = Readable string | Unreadable

type_synonym directory = "(string \<times> file_entry) list"

definition write_file :: "string \<Rightarrow> string \<Rightarrow> directory \<Rightarrow> directory" where
  "write_file name content dir = (name, Readable content) # filter (\<lambda>e. fst e \<noteq> name) dir"

text \<open>\<open>os.path.basename\<close> and the root of \<open>os.path.splitext\<close> (POSIX): the extension
  starts at the last dot, unless only dots precede it.\<close>

definition basename :: "string \<Rightarrow> string" where
  "basename p = rev (takeWhile (\<lambda>c. c \<noteq> CHR ''/'') (rev p))"

definition splitext_root :: "string \<Rightarrow> string" where
  "splitext_root b =
     (if filter (\<lambda>c. c \<noteq> CHR ''.'') (rsplit_head b) = [] then b else rsplit_head b)"

definition extract_program_name :: "string \<Rightarrow> string" where
  "extract_program_name path =
     (if path = [] then ''unknown''
      else replace_char (CHR ''-'') (CHR ''_'')
             (replace_char (CHR '' '') (CHR ''_'') (splitext_root (basename path))))"

definition text_lines :: "string list \<Rightarrow> string" where
  "text_lines ls = concat (map (\<lambda>l. l @ ''\<newline>'') ls)"

definition status_text :: "bool \<Rightarrow> string" where
  "status_text success = (if success then ''SUCCESS'' else ''FAILED'')"

text \<open>\<open>_format_local_vars\<close>; \<open>dumps\<close> stands for \<open>json.dumps(local_vars, default=str,
  indent=2)\<close> with its fallback to \<open>str(local_vars)\<close>, which is outside any \<open>try\<close> and
  calls the \<open>__repr__\<close> of every value: it can raise.\<close>

definition format_local_vars ::
  "((string \<times> pyval) list \<Rightarrow> string outcome) \<Rightarrow> (string \<times> pyval) list
     \<Rightarrow> string outcome" where
  "format_local_vars dumps vs = (if vs = [] then Returns ''{}'' else dumps vs)"

fun numbered :: "int \<Rightarrow> string list \<Rightarrow> string" where
  "numbered i [] = []"
| "numbered i (t # ts) = str_int i @ ''. '' @ t @ ''\<newline>'' @ numbered (i + 1) ts"

text \<open>\<open>_generate_debug_markdown\<close>, piece by piece. \<open>timestamp\<close> is the formatted
  \<open>datetime.now()\<close>, \<open>percent\<close> the float format \<open>:.1%\<close>, \<open>formatted_vars\<close> what
  \<open>_format_local_vars\<close> returned.\<close>

definition markdown_head :: "string \<Rightarrow> string \<Rightarrow> ErrorContext \<Rightarrow> bool \<Rightarrow> string" where
  "markdown_head timestamp formatted_vars ctx success =
     text_lines
       [''# ReflexRuntime Debug Session - '' @ status_text success,
        '''',
        ''**Status:** '' @ status_text success @ ''  '',
        ''**Timestamp:** '' @ timestamp @ ''  '',
        ''**Program:** '' @ extract_program_name (file_path ctx) @ ''  '',
        ''**Function:** '' @ target_fqn ctx @ ''  '',
        ''**File:** '' @ file_path ctx @ ''  '',
        ''**Line:** '' @ str_int (line_number ctx) @ ''  '',
        '''',
        ''---'',
        '''',
        ''## Exception Details'',
        '''',
        ''**Type:** `'' @ exception_type ctx @ ''`  '',
        ''**Message:** `'' @ exception_message ctx @ ''`  '',
        '''',
        ''### Full Traceback'',
        ''```'',
        traceback_str ctx,
        ''```'',
        '''',
        ''### Local Variables at Error'',
        ''```json'',
        formatted_vars,
        ''```'',
        '''',
        ''---'',
        '''',
        ''## Original Code'',
        '''',
        ''```python'',
        source_code ctx,
        ''```'',
        '''',
        ''---'',
        '''',
        ''## AI Analysis'',
        '''']"

definition markdown_proposal :: "(pyfloat \<Rightarrow> string) \<Rightarrow> PatchProposal option \<Rightarrow> string" where
  "markdown_proposal percent proposal =
     (case proposal of
        Some p \<Rightarrow>
          text_lines
            ['''',
             ''### AI Recommendation'',
             ''**Confidence:** '' @ percent (confidence p) @ ''  '',
             ''**Explanation:** '' @ explanation p,
             '''',
             ''### AI-Generated Patch'',
             ''```python'',
             patch_code p,
             ''```'',
             '''',
             ''### Test Cases Suggested'']
          @ numbered 1 (test_cases p)
      | None \<Rightarrow>
          text_lines ['''', ''**Result:** AI could not generate a patch for this exception.''])"

definition markdown_raw :: "string option \<Rightarrow> string" where
  "markdown_raw llm_response_raw =
     (case llm_response_raw of
        None \<Rightarrow> []
      | Some raw \<Rightarrow>
          (if raw = [] then []
           else text_lines ['''', ''### Raw LLM Response'', ''```json'', raw, ''```'']))"

definition markdown_outcome :: "bool \<Rightarrow> string option \<Rightarrow> string" where
  "markdown_outcome success error_message =
     text_lines ['''', ''---'', '''', ''## Patch Application'', '''']
     @ (if success then
          text_lines
            [''**Patch applied successfully!**'',
             '''',
             ''The function was hot-swapped in memory and is now handling the error case gracefully.'']
        else
          text_lines [''**Patch application failed.**'', '''']
          @ (case error_message of
               None \<Rightarrow> []
             | Some msg \<Rightarrow> (if msg = [] then [] else text_lines [''**Error:** '' @ msg, '''']))
          @ text_lines [''The original function remains unchanged.''])"

definition markdown_summary ::
  "(pyfloat \<Rightarrow> string) \<Rightarrow> ErrorContext \<Rightarrow> PatchProposal option \<Rightarrow> bool \<Rightarrow> string" where
  "markdown_summary percent ctx proposal success =
     text_lines
       ['''',
        ''---'',
        '''',
        ''## Session Summary'',
        '''',
        ''- **Exception Type:** '' @ exception_type ctx,
        ''- **AI Confidence:** ''
          @ (case proposal of None \<Rightarrow> ''N/A'' | Some p \<Rightarrow> percent (confidence p)),
        ''- **Patch Status:** '' @ (if success then ''Applied'' else ''Failed''),
        ''- **Function:** '' @ target_fqn ctx,
        '''',
        ''---'',
        '''',
        ''*Generated by ReflexRuntime Debug Logger*'']"

text \<open>The local variables are formatted inside the first piece: what that raises
  leaves \<open>_generate_debug_markdown\<close>.\<close>

definition generate_debug_markdown ::
  "string \<Rightarrow> (pyfloat \<Rightarrow> string) \<Rightarrow> ((string \<times> pyval) list \<Rightarrow> string outcome)
     \<Rightarrow> ErrorContext \<Rightarrow> PatchProposal option \<Rightarrow> bool \<Rightarrow> string option \<Rightarrow> string option
     \<Rightarrow> string outcome" where
  "generate_debug_markdown timestamp percent dumps ctx proposal success llm_response_raw error_message =
     (case format_local_vars dumps (local_vars ctx) of
        Raises e \<Rightarrow> Raises e
      | Escapes \<Rightarrow> Escapes
      | Returns formatted_vars \<Rightarrow>
          Returns
            (markdown_head timestamp formatted_vars ctx success
             @ markdown_proposal percent proposal
             @ markdown_raw llm_response_raw
             @ markdown_outcome success error_message
             @ markdown_summary percent ctx proposal success))"

text \<open>The first lines of a session record whose success flag is \<open>success\<close>: the banner and
  the status marker.\<close>

definition record_banner :: "bool \<Rightarrow> string" where
  "record_banner success =
     ''# ReflexRuntime Debug Session - '' @ status_text success @ ''\<newline>\<newline>''
       @ ''**Status:** '' @ status_text success @ ''  \<newline>''"

text \<open>The name of a session record: \<open>{program_name}_{function_name}_{epoch}.md\<close>.\<close>

definition session_filename :: "ErrorContext \<Rightarrow> int \<Rightarrow> string" where
  "session_filename ctx epoch =
     extract_program_name (file_path ctx) @ ''_'' @ last_component (target_fqn ctx)
       @ ''_'' @ str_int epoch @ ''.md''"

text \<open>\<open>DebugLogger.list_debug_sessions\<close> and \<open>DebugLogger.get_session_stats\<close>. The success
  rate is the quotient the code computes, a real here.\<close>

definition list_debug_sessions :: "directory option \<Rightarrow> string list" where
  "list_debug_sessions dir =
     (case dir of
        None \<Rightarrow> []
      | Some d \<Rightarrow> rev (sort (filter (ends_with ''.md'') (map fst d))))"

definition success_marker :: string where
  "success_marker = ''**Status:** SUCCESS''"

fun count_successful :: "directory \<Rightarrow> string list \<Rightarrow> int" where
  "count_successful d [] = 0"
| "count_successful d (filename # files) =
     (case map_of d filename of
        Some (Readable content) \<Rightarrow>
          (if contains success_marker content then 1 else 0) + count_successful d files
      | _ \<Rightarrow> count_successful d files)"

record session_stats =
  total_sessions :: int
  successful_sessions :: int
  failed_sessions :: int
  success_rate :: real

definition get_session_stats :: "directory option \<Rightarrow> session_stats" where
  "get_session_stats dir =
     (let files = list_debug_sessions dir;
          total = int (length files);
          successful = (case dir of None \<Rightarrow> 0 | Some d \<Rightarrow> count_successful d files)
      in \<lparr> total_sessions = total,
           successful_sessions = successful,
           failed_sessions = total - successful,
           success_rate = (if total > 0 then real_of_int successful / real_of_int total * 100 else 0) \<rparr>)"

text \<open>Rounding to one decimal place, as the viewer's \<open>:.1f\<close> displays the rate.\<close>

definition round1 :: "real \<Rightarrow> real" where
  "round1 x = real_of_int \<lfloor>x * 10 + 1 / 2\<rfloor> / 10"

text \<open>The session records of a directory are its \<open>.md\<close> files; a record counts as
  successful when it can be read and holds the success marker.\<close>

definition session_records :: "directory \<Rightarrow> directory" where
  "session_records d = filter (\<lambda>e. ends_with ''.md'' (fst e)) d"

fun successful_record :: "string \<times> file_entry \<Rightarrow> bool" where
  "successful_record (name, Readable content) = contains success_marker content"
| "successful_record (name, Unreadable) = False"

text \<open>What one file name adds to \<open>successful_sessions\<close> in the loop of
  \<open>get_session_stats\<close>.\<close>

definition record_score :: "directory \<Rightarrow> string \<Rightarrow> int" where
  "record_score d filename =
     (case map_of d filename of
        Some (Readable content) \<Rightarrow> (if contains success_marker content then 1 else 0)
      | _ \<Rightarrow> 0)"


section \<open>Orchestrator (orchestrator.py)\<close>

text \<open>What \<open>get_llm_client()\<close> comes to. In this repository it returns the client or
  raises (\<open>LLMClient.__init__\<close> raises ValueError without an API key); \<open>handle\<close> also
  has a branch for a result that is \<open>None\<close>.\<close>

datatype client_status = ClientReady | ClientNone | ClientRaises

text \<open>The world outside the core that one call of \<open>handle\<close> consults and does not
  change: the line cache, the traceback formatter, the LLM client and the outcome of its
  request for a given context, the JSON and float parsers, attribute lookup on module
  objects, the Python parser and interpreter, the importer, whether \<open>os.makedirs\<close> can
  create the log directory, whether a file of the log directory can be opened and
  written, the clock and the formatters of the log.\<close>

record host =
  getline :: "string \<Rightarrow> int \<Rightarrow> string"
  format_exception :: "exc_info \<Rightarrow> traceback \<Rightarrow> string"
  llm_client :: client_status
  request :: "ErrorContext \<Rightarrow> api_outcome"
  json_loads :: "string \<Rightarrow> loads_result"
  float_of_str :: "string \<Rightarrow> pyfloat option"
  module_attr :: attr_lookup
  source_valid :: "string \<Rightarrow> bool"
  run_source :: "string \<Rightarrow> namespace \<Rightarrow> exec_outcome"
  importer :: "string \<Rightarrow> import_outcome"
  can_makedirs :: bool
  can_write :: "string \<Rightarrow> bool"
  time_now :: int
  timestamp :: string
  percent :: "pyfloat \<Rightarrow> string"
  dumps :: "(string \<times> pyval) list \<Rightarrow> string outcome"

text \<open>The state a call of \<open>handle\<close> can change: the module store, the log directory
  (\<open>None\<close> while it does not exist), whether the global \<open>DebugLogger\<close> has been built,
  and the two attributes of the orchestrator.\<close>

record world =
  modules :: module_store
  debug_dir :: "directory option"
  logger_built :: bool
  patches_applied :: int
  debug :: bool

text \<open>\<open>get_debug_logger()\<close>: the first call builds the \<open>DebugLogger\<close>, whose
  \<open>ensure_debug_dir\<close> creates the log directory when it does not exist; \<open>os.makedirs\<close>
  may raise an OSError, and then nothing is built. The result tells whether a logger was
  returned.\<close>

definition get_debug_logger :: "host \<Rightarrow> world \<Rightarrow> bool \<times> world" where
  "get_debug_logger h w =
     (if logger_built w then (True, w)
      else
        (case debug_dir w of
           Some d \<Rightarrow> (True, w\<lparr>logger_built := True\<rparr>)
         | None \<Rightarrow>
             (if can_makedirs h then (True, w\<lparr>debug_dir := Some [], logger_built := True\<rparr>)
              else (False, w))))"

definition os_error :: exn where
  "os_error = Message ''[Errno 13] Permission denied: debug''"

text \<open>\<open>DebugLogger.log_ai_session\<close>: the path written, or \<open>None\<close> from the handler
  \<open>except Exception as e\<close> around the whole body, which prints a warning with the
  exception, and the directory afterwards. The content is generated before the file is
  opened. \<open>can_write\<close> tells whether \<open>open\<close> and \<open>write\<close> both succeed; the OSError of
  either has a message. A file that \<open>open\<close> created before \<open>write\<close> failed is not
  modelled.\<close>

definition log_ai_session ::
  "host \<Rightarrow> ErrorContext \<Rightarrow> PatchProposal option \<Rightarrow> bool \<Rightarrow> string option \<Rightarrow> string option
     \<Rightarrow> directory option \<Rightarrow> string option outcome \<times> directory option" where
  "log_ai_session h error_context patch_proposal success llm_response_raw error_message dir =
     (let filename = session_filename error_context (time_now h)
      in case generate_debug_markdown (timestamp h) (percent h) (dumps h) error_context
                patch_proposal success llm_response_raw error_message of
           Escapes \<Rightarrow> (Escapes, dir)
         | Raises e \<Rightarrow>
             (case str_exn e of
                Returns message \<Rightarrow> (Returns None, dir)
              | Raises e' \<Rightarrow> (Raises e', dir)
              | Escapes \<Rightarrow> (Escapes, dir))
         | Returns content \<Rightarrow>
             (case dir of
                None \<Rightarrow> (Returns None, dir)
              | Some d \<Rightarrow>
                  (if can_write h filename
                   then (Returns (Some (''debug/'' @ filename)),
                         Some (write_file filename content d))
                   else (Returns None, dir))))"

text \<open>A Python result of \<open>handle\<close>: \<open>True\<close>, \<open>False\<close>, or the \<open>None\<close> of a function
  body that ends without \<open>return\<close>.\<close>

datatype py_result = RTrue | RFalse | RNone

fun of_bool_result :: "bool \<Rightarrow> py_result" where
  "of_bool_result True = RTrue"
| "of_bool_result False = RFalse"

fun truthy :: "py_result \<Rightarrow> bool" where
  "truthy RTrue = True"
| "truthy RFalse = False"
| "truthy RNone = False"

text \<open>"Log the session regardless of success/failure" and \<open>return success\<close>, the end of
  the inner \<open>try\<close> block of \<open>handle\<close>. \<open>get_debug_logger()\<close> is called inside that
  block, so its OSError leaves the block as any other exception does.\<close>

definition log_and_return ::
  "host \<Rightarrow> ErrorContext \<Rightarrow> PatchProposal option \<Rightarrow> bool \<Rightarrow> string \<Rightarrow> string option \<Rightarrow> world
     \<Rightarrow> py_result outcome \<times> world" where
  "log_and_return h ctx patch_proposal success llm_response_raw error_message w =
     (case get_debug_logger h w of
        (False, w1) \<Rightarrow> (Raises os_error, w1)
      | (True, w1) \<Rightarrow>
          (case log_ai_session h ctx patch_proposal success (Some llm_response_raw)
                  error_message (debug_dir w1) of
             (Returns path, dir) \<Rightarrow> (Returns (of_bool_result success), w1\<lparr>debug_dir := dir\<rparr>)
           | (Raises e, dir) \<Rightarrow> (Raises e, w1\<lparr>debug_dir := dir\<rparr>)
           | (Escapes, dir) \<Rightarrow> (Escapes, w1\<lparr>debug_dir := dir\<rparr>)))"

text \<open>The inner \<open>try\<close> block of \<open>handle\<close> (the branch with a client): the generator, the
  applier with the counter, and the log.\<close>

definition llm_try :: "host \<Rightarrow> ErrorContext \<Rightarrow> world \<Rightarrow> py_result outcome \<times> world" where
  "llm_try h ctx w =
     (case analyze_exception_and_generate_patch_with_raw (json_loads h) (float_of_str h)
             (request h ctx) of
        Escapes \<Rightarrow> (Escapes, w)
      | Raises e \<Rightarrow> (Raises e, w)
      | Returns None \<Rightarrow>
          log_and_return h ctx None False ''No response from LLM''
            (Some ''LLM could not generate a patch'') w
      | Returns (Some (patch_proposal, llm_response_raw)) \<Rightarrow>
          (case apply_llm_patch (debug w) (importer h) (module_attr h) (source_valid h)
                  (run_source h) ctx patch_proposal (modules w) of
             (Escapes, mods) \<Rightarrow> (Escapes, w\<lparr>modules := mods\<rparr>)
           | (Raises e, mods) \<Rightarrow> (Raises e, w\<lparr>modules := mods\<rparr>)
           | (Returns success, mods) \<Rightarrow>
               (if success then
                  log_and_return h ctx (Some patch_proposal) True llm_response_raw None
                    (w\<lparr>modules := mods, patches_applied := patches_applied w + 1\<rparr>)
                else
                  log_and_return h ctx (Some patch_proposal) False llm_response_raw
                    (Some ''Patch application failed'') (w\<lparr>modules := mods\<rparr>))))"

text \<open>The handler \<open>except Exception as llm_error\<close> of that block: it prints the
  exception, puts it into the error message and logs a failed session inside a \<open>try\<close> of
  its own, whose handler prints a warning with the exception it caught; then it returns
  False. What the printing of an exception raises leaves the handler.\<close>

definition llm_error_handler ::
  "host \<Rightarrow> ErrorContext \<Rightarrow> exn \<Rightarrow> world \<Rightarrow> py_result outcome \<times> world" where
  "llm_error_handler h ctx llm_error w =
     (case str_exn llm_error of
        Raises e \<Rightarrow> (Raises e, w)
      | Escapes \<Rightarrow> (Escapes, w)
      | Returns message \<Rightarrow>
          (case get_debug_logger h w of
             (False, w1) \<Rightarrow> (Returns RFalse, w1)
           | (True, w1) \<Rightarrow>
               (case log_ai_session h ctx None False None
                       (Some (''LLM integration error: '' @ message)) (debug_dir w1) of
                  (Returns path, dir) \<Rightarrow> (Returns RFalse, w1\<lparr>debug_dir := dir\<rparr>)
                | (Escapes, dir) \<Rightarrow> (Escapes, w1\<lparr>debug_dir := dir\<rparr>)
                | (Raises log_error, dir) \<Rightarrow>
                    (case str_exn log_error of
                       Returns warning \<Rightarrow> (Returns RFalse, w1\<lparr>debug_dir := dir\<rparr>)
                     | Raises e \<Rightarrow> (Raises e, w1\<lparr>debug_dir := dir\<rparr>)
                     | Escapes \<Rightarrow> (Escapes, w1\<lparr>debug_dir := dir\<rparr>)))))"

text \<open>The body of the outer \<open>try\<close> block of \<open>handle\<close>. Printing is left out, but not
  what the prints evaluate: with the debug flag set the first prints evaluate
  \<open>exc_type.__name__\<close> and \<open>str(exc_value)\<close>, and \<open>from_traceback\<close> evaluates them
  again. With no client (\<open>llm_client is None\<close>) the body sets its variables and ends,
  so the call returns \<open>None\<close>; the exceptions of \<open>get_llm_client()\<close> (the ValueError of a
  missing API key, those of the client library) have a message.\<close>

definition client_error :: exn where
  "client_error = Message ''OpenAI API key not found''"

definition handle_try ::
  "host \<Rightarrow> exc_info \<Rightarrow> traceback option \<Rightarrow> world \<Rightarrow> py_result outcome \<times> world" where
  "handle_try h exc tb w =
     (case debug_print (debug w) (describe_exception exc) of
        Raises e \<Rightarrow> (Raises e, w)
      | Escapes \<Rightarrow> (Escapes, w)
      | Returns u \<Rightarrow>
          (case from_traceback (getline h) (format_exception h) exc tb of
             Raises e \<Rightarrow> (Raises e, w)
           | Escapes \<Rightarrow> (Escapes, w)
           | Returns ctx \<Rightarrow>
               (case llm_client h of
                  ClientRaises \<Rightarrow> (Raises client_error, w)
                | ClientNone \<Rightarrow> (Returns RNone, w)
                | ClientReady \<Rightarrow>
                    (case llm_try h ctx w of
                       (Raises llm_error, w1) \<Rightarrow> llm_error_handler h ctx llm_error w1
                     | (r, w1) \<Rightarrow> (r, w1)))))"

text \<open>\<open>SimpleOrchestrator.handle\<close>: the body, and the handler \<open>except Exception as e\<close>
  around it, which with the debug flag set prints the exception (and a traceback, whose
  formatting does not raise) and returns False. An exception that is no \<open>Exception\<close>
  passes every handler and leaves the call; so does what the printing of the caught
  exception raises.\<close>

definition handle ::
  "host \<Rightarrow> exc_info \<Rightarrow> traceback option \<Rightarrow> world \<Rightarrow> py_result outcome \<times> world" where
  "handle h exc tb w =
     (case handle_try h exc tb w of
        (Raises e, w1) \<Rightarrow>
          (case debug_print (debug w1) (str_exn e) of
             Returns u \<Rightarrow> (Returns RFalse, w1)
           | Raises e' \<Rightarrow> (Raises e', w1)
           | Escapes \<Rightarrow> (Escapes, w1))
      | (r, w1) \<Rightarrow> (r, w1))"

text \<open>The exception hook. \<open>sys.excepthook\<close> holds a handler: the one present before any
  installation (\<open>PreviousHook\<close>, whose call presents the exception; the presentations are
  kept in \<open>presented\<close>), or the closure \<open>reflex_excepthook\<close> that \<open>install_hook\<close> builds
  around the handler it found (\<open>ReflexHook original\<close>).\<close>

datatype hook = PreviousHook | ReflexHook hook

record process =
  orchestrator :: world
  excepthook :: hook
  presented :: "(exc_info \<times> traceback option) list"

definition install_hook :: "process \<Rightarrow> process" where
  "install_hook p = p\<lparr>excepthook := ReflexHook (excepthook p)\<rparr>"

text \<open>A call of the hook returns, or is left by an exception. With the debug flag set
  \<open>reflex_excepthook\<close> first prints \<open>exc_type.__name__\<close> and the exception, outside any
  \<open>try\<close>: what that raises leaves the hook before \<open>handle\<close> is called, and so does
  what leaves \<open>handle\<close>. What the interpreter does with a hook that did not return is
  not modelled.\<close>

fun call_hook ::
  "host \<Rightarrow> hook \<Rightarrow> exc_info \<Rightarrow> traceback option \<Rightarrow> process \<Rightarrow> unit outcome \<times> process" where
  "call_hook h PreviousHook exc tb p = (Returns (), p\<lparr>presented := presented p @ [(exc, tb)]\<rparr>)"
| "call_hook h (ReflexHook original_excepthook) exc tb p =
     (case debug_print (debug (orchestrator p)) (describe_exception exc) of
        Raises e \<Rightarrow> (Raises e, p)
      | Escapes \<Rightarrow> (Escapes, p)
      | Returns u \<Rightarrow>
          (case handle h exc tb (orchestrator p) of
             (Returns handled, w) \<Rightarrow>
               (if truthy handled then (Returns (), p\<lparr>orchestrator := w\<rparr>)
                else call_hook h original_excepthook exc tb (p\<lparr>orchestrator := w\<rparr>))
           | (Raises e, w) \<Rightarrow> (Raises e, p\<lparr>orchestrator := w\<rparr>)
           | (Escapes, w) \<Rightarrow> (Escapes, p\<lparr>orchestrator := w\<rparr>)))"

text \<open>An uncaught exception reaches whatever \<open>sys.excepthook\<close> holds.\<close>

definition uncaught ::
  "host \<Rightarrow> exc_info \<Rightarrow> traceback option \<Rightarrow> process \<Rightarrow> unit outcome \<times> process" where
  "uncaught h exc tb p = call_hook h (excepthook p) exc tb p"


section \<open>A concrete scenario\<close>

text \<open>The scenario of the demo calculator, used to evaluate the definitions: a script
  whose \<open>__main__\<close> holds a function \<open>divide\<close>, three candidate patches, and a host
  that answers for exactly the texts of the scenario as Python and the \<open>json\<close> module
  answer for them.\<close>

definition original_divide :: string where
  "original_divide = ''def divide(a, b): return a / b''"

definition good_patch :: string where
  "good_patch = ''def divide(a, b): return None if b == 0 else a / b''"

text \<open>A patch with an unclosed parenthesis: not Python.\<close>

definition broken_patch :: string where
  "broken_patch = ''def divide(a, b: return 0''"

text \<open>A patch that defines \<open>divide\<close> and then rebinds the name to an integer.\<close>

definition rebinding_patch :: string where
  "rebinding_patch = ''def divide(a, b): return 0\<newline>divide = 5''"

text \<open>A patch, not Python either, whose function name is one that every module object
  has from its type.\<close>

definition init_patch :: string where
  "init_patch = ''def __init__(self: pass''"

definition good_proposal :: PatchProposal where
  "good_proposal =
     \<lparr> patch_code = good_patch, explanation = ''guard the zero divisor'',
       confidence = Finite 0.5, test_cases = [] \<rparr>"

definition broken_proposal :: PatchProposal where
  "broken_proposal =
     \<lparr> patch_code = broken_patch, explanation = ''return zero'',
       confidence = Finite 0.9, test_cases = [] \<rparr>"

definition rebinding_proposal :: PatchProposal where
  "rebinding_proposal =
     \<lparr> patch_code = rebinding_patch, explanation = ''return zero'',
       confidence = Finite 0.9, test_cases = [] \<rparr>"

definition init_proposal :: PatchProposal where
  "init_proposal =
     \<lparr> patch_code = init_patch, explanation = ''initialise'',
       confidence = Finite 0.9, test_cases = [] \<rparr>"

definition example_source_valid :: "string \<Rightarrow> bool" where
  "example_source_valid source = (source = good_patch \<or> source = rebinding_patch)"

definition example_run_source :: "string \<Rightarrow> namespace \<Rightarrow> exec_outcome" where
  "example_run_source source ns =
     (if source = good_patch then Completed (ns(''divide'' \<mapsto> PyFunc good_patch))
      else if source = rebinding_patch then Completed (ns(''divide'' \<mapsto> PyInt 5))
      else Raised (OtherException (Message ''error'')) ns)"

definition example_modules :: module_store where
  "example_modules m =
     (if m = ''__main__'' then [''divide'' \<mapsto> PyFunc original_divide] else Map.empty)"

text \<open>Attribute lookup on a plain module (one without \<open>__getattr__\<close>), for the names of
  the scenario: what the symbol table holds, then some of what the module type
  provides.\<close>

definition module_type_names :: "string list" where
  "module_type_names = [''__init__'', ''__repr__'', ''__str__'', ''__dir__'', ''__eq__'',
     ''__hash__'']"

definition example_lookup :: attr_lookup where
  "example_lookup ns name =
     (case ns name of
        Some v \<Rightarrow> Returns (Some v)
      | None \<Rightarrow>
          (if name \<in> set module_type_names
           then Returns (Some (PyObject (Returns ''<method-wrapper>'')))
           else Returns None))"

definition good_reply_body :: string where
  "good_reply_body = ''\"patch_code\": \"def divide(a, b): return None if b == 0 else a / b\", \"explanation\": \"guard the zero divisor\"''"

definition good_reply :: string where
  "good_reply = ''{'' @ good_reply_body @ ''}''"

definition vague_reply :: string where
  "vague_reply = ''{\"confidence\": \"high\"}''"

definition example_json_loads :: "string \<Rightarrow> loads_result" where
  "example_json_loads s =
     (if s = good_reply then
        Parsed (JObj [(''patch_code'', JStr good_patch),
                      (''explanation'', JStr ''guard the zero divisor'')])
      else if s = vague_reply then Parsed (JObj [(''confidence'', JStr ''high'')])
      else if s = ''{}'' then Parsed (JObj [])
      else DecodeError)"

definition example_float_of_str :: "string \<Rightarrow> pyfloat option" where
  "example_float_of_str s = (if s = ''0.9'' then Some (Finite 0.9) else None)"


definition example_exc :: exc_info where
  "example_exc =
     \<lparr> exc_type_name = Returns ''ZeroDivisionError'',
       exc_str = Returns ''division by zero'' \<rparr>"

text \<open>An exception of a class whose \<open>__str__\<close> raises.\<close>

definition unprintable_exc :: exc_info where
  "unprintable_exc =
     \<lparr> exc_type_name = Returns ''Unprintable'',
       exc_str = Raises (Message ''no text'') \<rparr>"

definition example_tb :: traceback where
  "example_tb = \<lparr> tb_lineno = 1, co_filename = ''calc.py'', co_name = ''divide'',
                  globals_name = Some ''__main__'',
                  f_locals = Some [(''a'', PyInt 4), (''b'', PyInt 0)] \<rparr>"

definition example_ctx :: ErrorContext where
  "example_ctx =
     \<lparr> exception_type = ''ZeroDivisionError'',
       exception_message = ''division by zero'',
       traceback_str = ''ZeroDivisionError: division by zero'',
       target_fqn = ''__main__.divide'',
       source_code = ''>>> 1: def divide(a, b): return a / b'',
       file_path = ''calc.py'',
       line_number = 1,
       local_vars = [(''a'', PyInt 4), (''b'', PyInt 0)] \<rparr>"

definition example_host :: host where
  "example_host =
     \<lparr> getline = (\<lambda>path i. if path = ''calc.py'' \<and> i = 1 then original_divide @ ''\<newline>'' else []),
       format_exception = (\<lambda>exc tb. ''ZeroDivisionError: division by zero''),
       llm_client = ClientReady,
       request = (\<lambda>ctx. ApiContent (Some good_reply)),
       json_loads = example_json_loads,
       float_of_str = example_float_of_str,
       module_attr = example_lookup,
       source_valid = example_source_valid,
       run_source = example_run_source,
       importer = (\<lambda>path. ImportFails),
       can_makedirs = True,
       can_write = (\<lambda>name. True),
       time_now = 1700000000,
       timestamp = ''2023-11-14 22:13:20'',
       percent = (\<lambda>r. if r = Finite 0.5 then ''50.0%'' else ''90.0%''),
       dumps = (\<lambda>vs. Returns ''{\"a\": 4, \"b\": 0}'') \<rparr>"

text \<open>A process that has logged nothing yet, in a working directory with an empty log
  directory.\<close>

definition example_world :: world where
  "example_world =
     \<lparr> modules = example_modules, debug_dir = Some [], logger_built = False,
       patches_applied = 0, debug = True \<rparr>"

text \<open>A log directory of three records, two of them successful.\<close>

definition three_sessions :: directory where
  "three_sessions =
     [(''calc_divide_1700000000.md'', Readable (record_banner True @ ''...'')),
      (''calc_divide_1700000007.md'', Readable (record_banner False @ ''...'')),
      (''api_lookup_1700000100.md'', Readable (record_banner True @ ''...''))]"

text \<open>The same host without an API key (\<open>get_llm_client()\<close> raises ValueError); and the
  same host and process in a working directory that has no log directory and where none
  can be created (\<open>os.makedirs\<close> raises, so \<open>get_debug_logger()\<close> does).\<close>

definition keyless_host :: host where
  "keyless_host = example_host\<lparr>llm_client := ClientRaises\<rparr>"

definition unlogged_host :: host where
  "unlogged_host = example_host\<lparr>can_makedirs := False\<rparr>"

definition unlogged_world :: world where
  "unlogged_world = example_world\<lparr>debug_dir := None\<rparr>"



section \<open>Error context capture\<close>

lemma describe_exception_returns:
  "exc_type_name exc = Returns name \<Longrightarrow> exc_str exc = Returns message
   \<Longrightarrow> describe_exception exc = Returns (name, message)"
  by (simp add: describe_exception_def)

lemma describe_exception_returns_iff:
  "(\<exists>d. describe_exception exc = Returns d)
   \<longleftrightarrow> (\<exists>name message. exc_type_name exc = Returns name \<and> exc_str exc = Returns message)"
  by (auto simp: describe_exception_def split: outcome.splits)

lemma from_traceback_returns_iff:
  "(\<exists>ctx. from_traceback gl fmt exc tb = Returns ctx)
   \<longleftrightarrow> (\<exists>d. describe_exception exc = Returns d)"
  by (auto simp: from_traceback_def split: outcome.splits option.splits)

lemma from_traceback_raises_iff:
  "from_traceback gl fmt exc tb = Raises e \<longleftrightarrow> describe_exception exc = Raises e"
  by (auto simp: from_traceback_def split: outcome.splits option.splits)

lemma from_traceback_escapes_iff:
  "from_traceback gl fmt exc tb = Escapes \<longleftrightarrow> describe_exception exc = Escapes"
  by (auto simp: from_traceback_def split: outcome.splits option.splits)

text \<open>
  Claim C7, as stated, fails: \<open>from_traceback\<close> evaluates \<open>exc_type.__name__\<close> and
  \<open>str(exc_value)\<close> outside any \<open>try\<close>. For an exception of a class whose \<open>__str__\<close>
  raises, the call with no traceback raises what \<open>__str__\<close> raised and returns no
  ErrorContext.
\<close>

theorem from_traceback_str_raises_counterexample:
  "from_traceback (getline example_host) (format_exception example_host) unprintable_exc None
     = Raises (Message ''no text'')"
  by (simp add: from_traceback_def describe_exception_def unprintable_exc_def)

text \<open>
  Claim C7, amended. For every exception type and value for which \<open>exc_type.__name__\<close>
  and \<open>str(exc_value)\<close> return, \<open>from_traceback\<close> with no traceback returns an
  ErrorContext whose \<open>target_fqn\<close> is \<open>"unknown"\<close>, whose \<open>file_path\<close> is \<open>"unknown"\<close>,
  whose \<open>line_number\<close> is 0, whose \<open>source_code\<close> is the empty string and whose
  \<open>local_vars\<close> is empty; its type and message are the two texts, and its traceback text
  is made of them.
\<close>

theorem from_traceback_no_traceback:
  assumes "exc_type_name exc = Returns name" and "exc_str exc = Returns message"
  shows "\<exists>ctx. from_traceback gl fmt exc None = Returns ctx
           \<and> target_fqn ctx = ''unknown''
           \<and> file_path ctx = ''unknown''
           \<and> line_number ctx = 0
           \<and> source_code ctx = ''''
           \<and> local_vars ctx = []
           \<and> exception_type ctx = name
           \<and> exception_message ctx = message
           \<and> traceback_str ctx = name @ '': '' @ message"
  using assms by (simp add: from_traceback_def describe_exception_def)

theorem from_traceback_no_traceback_witness:
  "\<exists>ctx. from_traceback (getline example_host) (format_exception example_host) example_exc None
           = Returns ctx
     \<and> target_fqn ctx = ''unknown''
     \<and> file_path ctx = ''unknown''
     \<and> line_number ctx = 0
     \<and> source_code ctx = []
     \<and> local_vars ctx = []
     \<and> exception_type ctx = ''ZeroDivisionError''
     \<and> exception_message ctx = ''division by zero''
     \<and> traceback_str ctx = ''ZeroDivisionError'' @ '': '' @ ''division by zero''"
  using from_traceback_no_traceback [of example_exc "''ZeroDivisionError''"
      "''division by zero''" "getline example_host" "format_exception example_host"]
  by (simp add: example_exc_def)


section \<open>Patch applier: results\<close>

subsection \<open>The scenario, evaluated\<close>

lemma extract_good_patch: "extract_function_name good_patch = Some ''divide''"
  by (simp add: good_patch_def match_def_at_def is_space_def is_ident_start_def
      is_ident_char_def)

lemma extract_broken_patch: "extract_function_name broken_patch = Some ''divide''"
  by (simp add: broken_patch_def match_def_at_def is_space_def is_ident_start_def
      is_ident_char_def)

lemma extract_rebinding_patch: "extract_function_name rebinding_patch = Some ''divide''"
  by (simp add: rebinding_patch_def match_def_at_def is_space_def is_ident_start_def
      is_ident_char_def)

lemma extract_init_patch: "extract_function_name init_patch = Some ''__init__''"
  by (simp add: init_patch_def match_def_at_def is_space_def is_ident_start_def
      is_ident_char_def)

lemma example_lookup_divide:
  "ns ''divide'' = Some v \<Longrightarrow> example_lookup ns ''divide'' = Returns (Some v)"
  by (simp add: example_lookup_def)

lemma example_namespace:
  "get_function_namespace imp example_lookup example_modules ''__main__.divide''
   = Returns (Some ''__main__'')"
  by (simp add: get_function_namespace_def example_modules_def hasattr_def last_component_def
      example_lookup_def)

lemma broken_patch_invalid: "\<not> example_source_valid broken_patch"
  by (simp add: example_source_valid_def broken_patch_def good_patch_def rebinding_patch_def)

lemma init_patch_invalid: "\<not> example_source_valid init_patch"
  by (simp add: example_source_valid_def init_patch_def good_patch_def rebinding_patch_def)

lemma good_patch_valid: "example_source_valid good_patch"
  by (simp add: example_source_valid_def)

lemma rebinding_patch_valid: "example_source_valid rebinding_patch"
  by (simp add: example_source_valid_def)

lemma run_good_patch:
  "example_run_source good_patch ns = Completed (ns(''divide'' \<mapsto> PyFunc good_patch))"
  by (simp add: example_run_source_def)

lemma run_rebinding_patch:
  "example_run_source rebinding_patch ns = Completed (ns(''divide'' \<mapsto> PyInt 5))"
  by (simp add: example_run_source_def rebinding_patch_def good_patch_def)

lemma debug_print_returns: "debug_print dbg (Returns x) = Returns ()"
  by (simp add: debug_print_def)

lemma apply_good_proposal:
  "apply_llm_patch dbg imp example_lookup example_source_valid example_run_source example_ctx
     good_proposal example_modules
   = (Returns True, example_modules(''__main__'' := [''divide'' \<mapsto> PyFunc good_patch]))"
  by (simp add: apply_llm_patch_def apply_try_def exec_patch_def good_proposal_def
      extract_good_patch example_ctx_def example_namespace py_exec_def good_patch_valid
      run_good_patch hasattr_def verify_patch_def getattr_or_none_def getattr_str_def
      example_lookup_divide debug_print_returns example_modules_def fun_eq_iff)

subsection \<open>Syntax errors\<close>

text \<open>A source that does not compile leaves the module store as it was, whatever
  \<open>_apply_llm_patch\<close> returns.\<close>

lemma apply_invalid_source_store:
  "\<not> sv (patch_code p) \<Longrightarrow> snd (apply_llm_patch dbg imp lookup sv rs ctx p mods) = mods"
  by (auto simp: apply_llm_patch_def apply_try_def exec_patch_def py_exec_def
      split: option.splits outcome.splits bool.splits prod.splits)

text \<open>
  Claim C1, at a failing input. The proposal \<open>broken_proposal\<close> has the patch text
  \<^verbatim>\<open>def divide(a, b: return 0\<close>, which is not Python; \<open>__main__\<close> holds \<open>divide\<close>.
  \<open>_apply_llm_patch\<close> returns True, with the debug flag set or not, where the claim says
  false; the binding of \<open>divide\<close> is unchanged, as the claim says.
\<close>

theorem apply_syntax_error_returns_true:
  "\<not> example_source_valid (patch_code broken_proposal)
   \<and> apply_llm_patch dbg (importer example_host) example_lookup example_source_valid
        example_run_source example_ctx broken_proposal example_modules
     = (Returns True, example_modules)"
  by (simp add: apply_llm_patch_def apply_try_def exec_patch_def broken_proposal_def
      extract_broken_patch example_ctx_def example_namespace py_exec_def broken_patch_invalid
      hasattr_def verify_patch_def getattr_or_none_def getattr_str_def
      example_lookup_divide debug_print_returns example_modules_def fun_eq_iff)

subsection \<open>The post-condition of a successful apply\<close>

lemma verify_patch_true:
  assumes "verify_patch dbg lookup ns func_name = Returns True"
  shows "\<exists>v. lookup ns func_name = Returns (Some v) \<and> v \<noteq> PyNone"
  using assms
  by (auto simp: verify_patch_def getattr_or_none_def split: outcome.splits option.splits
      if_splits)

lemma exec_patch_cases:
  "fst (exec_patch dbg lookup sv rs source ns func_name) = Returns b \<Longrightarrow> b = True \<or> b = False"
  by simp

lemma apply_try_true:
  assumes "fst (apply_try dbg imp lookup sv rs ctx p mods) = Returns True"
  shows "\<exists>func_name m ns.
           extract_function_name (patch_code p) = Some func_name
           \<and> get_function_namespace imp lookup mods (target_fqn ctx) = Returns (Some m)
           \<and> hasattr lookup (mods m) func_name = Returns True
           \<and> snd (apply_try dbg imp lookup sv rs ctx p mods) = mods(m := ns)
           \<and> verify_patch dbg lookup ns func_name = Returns True"
proof (cases "extract_function_name (patch_code p)")
  case None
  with assms show ?thesis by (simp add: apply_try_def)
next
  case (Some func_name)
  note f = Some
  show ?thesis
  proof (cases "get_function_namespace imp lookup mods (target_fqn ctx)")
    case (Returns mo)
    show ?thesis
    proof (cases mo)
      case None
      with assms f Returns show ?thesis by (simp add: apply_try_def)
    next
      case (Some m)
      with Returns have g:
        "get_function_namespace imp lookup mods (target_fqn ctx) = Returns (Some m)"
        by simp
      show ?thesis
      proof (cases "hasattr lookup (mods m) func_name")
        case (Returns b)
        show ?thesis
        proof (cases b)
          case False
          with assms f g Returns show ?thesis by (simp add: apply_try_def)
        next
          case True
          with Returns have ha: "hasattr lookup (mods m) func_name = Returns True"
            by simp
          show ?thesis
          proof (cases "debug_print dbg (getattr_str lookup (mods m) func_name)")
            case (Returns u)
            obtain r ns where e:
              "exec_patch dbg lookup sv rs (patch_code p) (mods m) func_name = (r, ns)"
              by (cases "exec_patch dbg lookup sv rs (patch_code p) (mods m) func_name")
            show ?thesis
            proof (cases "r = Returns True")
              case True
              with assms f g ha Returns e show ?thesis
                by (auto simp: apply_try_def)
            next
              case False
              with assms f g ha Returns e show ?thesis
                by (cases r) (auto simp: apply_try_def split: bool.splits)
            qed
          qed (use assms f g ha in \<open>simp_all add: apply_try_def\<close>)
        qed
      qed (use assms f g in \<open>simp_all add: apply_try_def\<close>)
    qed
  qed (use assms f in \<open>simp_all add: apply_try_def\<close>)
qed

lemma apply_llm_patch_true:
  "fst (apply_llm_patch dbg imp lookup sv rs ctx p mods) = Returns True
   \<longleftrightarrow> fst (apply_try dbg imp lookup sv rs ctx p mods) = Returns True"
  by (cases "apply_try dbg imp lookup sv rs ctx p mods")
     (auto simp: apply_llm_patch_def split: outcome.splits)

lemma apply_llm_patch_snd:
  "snd (apply_llm_patch dbg imp lookup sv rs ctx p mods)
   = snd (apply_try dbg imp lookup sv rs ctx p mods)"
  by (cases "apply_try dbg imp lookup sv rs ctx p mods")
     (auto simp: apply_llm_patch_def split: outcome.splits)


text \<open>
  Claim C5, as stated, fails: the final check of \<open>_apply_llm_patch\<close> is
  \<open>new_func is None\<close>, and nothing tests \<open>callable\<close>. The patch \<open>rebinding_patch\<close>
  defines \<open>divide\<close> and then binds the name to the integer 5; the call (with the debug
  flag set, as the orchestrator is built) returns True and the binding is not callable.
\<close>

theorem apply_true_not_callable_counterexample:
  "fst (apply_llm_patch True (importer example_host) example_lookup example_source_valid
          example_run_source example_ctx rebinding_proposal example_modules) = Returns True
   \<and> getattr_or_none example_lookup
        (snd (apply_llm_patch True (importer example_host) example_lookup example_source_valid
                example_run_source example_ctx rebinding_proposal example_modules)
           ''__main__'') ''divide'' = Returns (PyInt 5)
   \<and> \<not> callable (PyInt 5)"
  by (simp add: apply_llm_patch_def apply_try_def exec_patch_def rebinding_proposal_def
      extract_rebinding_patch example_ctx_def example_namespace py_exec_def
      rebinding_patch_valid run_rebinding_patch hasattr_def verify_patch_def
      getattr_or_none_def getattr_str_def example_lookup_divide debug_print_returns
      example_modules_def str_int_def)

text \<open>The name need not be in the symbol table of the module: \<open>hasattr\<close> and \<open>getattr\<close>
  also find what the module type provides. The patch \<open>init_patch\<close> does not compile and
  its function name is \<open>__init__\<close>; the call returns True, and \<open>__main__\<close> has no entry
  of that name, before or after.\<close>

lemma apply_true_name_from_module_type:
  "apply_llm_patch dbg (importer example_host) example_lookup example_source_valid
     example_run_source example_ctx init_proposal example_modules
   = (Returns True, example_modules)
   \<and> example_modules ''__main__'' ''__init__'' = None"
  by (simp add: apply_llm_patch_def apply_try_def exec_patch_def init_proposal_def
      extract_init_patch example_ctx_def example_namespace py_exec_def init_patch_invalid
      hasattr_def verify_patch_def getattr_or_none_def getattr_str_def example_lookup_def
      module_type_names_def debug_print_returns example_modules_def fun_eq_iff)

text \<open>
  Claim C5, amended. Whenever \<open>_apply_llm_patch\<close> returns True, a function name was
  extracted from the patch, a namespace was resolved, and on the module as the call
  leaves it \<open>hasattr(namespace, name)\<close> is true and \<open>getattr(namespace, name, None)\<close>
  returns a value other than \<open>None\<close>. Nothing is said of the symbol table of the module
  nor of the value being callable. So a proposal whose execution leaves
  \<open>getattr(namespace, name, None)\<close> at \<open>None\<close>, or raising, does not make the call
  return True.
\<close>

theorem apply_true_bound_not_none:
  assumes "fst (apply_llm_patch dbg imp lookup sv rs ctx p mods) = Returns True"
  shows "\<exists>func_name m v.
           extract_function_name (patch_code p) = Some func_name
           \<and> get_function_namespace imp lookup mods (target_fqn ctx) = Returns (Some m)
           \<and> hasattr lookup (snd (apply_llm_patch dbg imp lookup sv rs ctx p mods) m) func_name
               = Returns True
           \<and> getattr_or_none lookup (snd (apply_llm_patch dbg imp lookup sv rs ctx p mods) m)
                 func_name = Returns v
           \<and> v \<noteq> PyNone"
proof -
  from assms have "fst (apply_try dbg imp lookup sv rs ctx p mods) = Returns True"
    by (simp add: apply_llm_patch_true)
  from apply_try_true [OF this] obtain func_name m ns where
    f: "extract_function_name (patch_code p) = Some func_name"
    and g: "get_function_namespace imp lookup mods (target_fqn ctx) = Returns (Some m)"
    and s: "snd (apply_try dbg imp lookup sv rs ctx p mods) = mods(m := ns)"
    and v: "verify_patch dbg lookup ns func_name = Returns True"
    by blast
  from verify_patch_true [OF v] obtain x where
    x: "lookup ns func_name = Returns (Some x)" "x \<noteq> PyNone"
    by blast
  have "snd (apply_llm_patch dbg imp lookup sv rs ctx p mods) m = ns"
    by (simp add: apply_llm_patch_snd s)
  with f g x show ?thesis
    by (simp add: hasattr_def getattr_or_none_def)
qed

theorem apply_true_bound_not_none_witness:
  "fst (apply_llm_patch True (importer example_host) example_lookup example_source_valid
          example_run_source example_ctx good_proposal example_modules) = Returns True
   \<and> (\<exists>func_name m v.
         extract_function_name (patch_code good_proposal) = Some func_name
         \<and> get_function_namespace (importer example_host) example_lookup example_modules
              (target_fqn example_ctx) = Returns (Some m)
         \<and> hasattr example_lookup
              (snd (apply_llm_patch True (importer example_host) example_lookup
                      example_source_valid example_run_source example_ctx good_proposal
                      example_modules) m)
              func_name = Returns True
         \<and> getattr_or_none example_lookup
              (snd (apply_llm_patch True (importer example_host) example_lookup
                      example_source_valid example_run_source example_ctx good_proposal
                      example_modules) m)
              func_name = Returns v
         \<and> v \<noteq> PyNone)"
proof -
  have applied:
    "fst (apply_llm_patch True (importer example_host) example_lookup example_source_valid
            example_run_source example_ctx good_proposal example_modules) = Returns True"
    by (simp add: apply_good_proposal)
  from apply_true_bound_not_none [OF applied] applied show ?thesis
    by simp
qed


section \<open>LLM patch generator: results\<close>

subsection \<open>The recovery pattern on a fenced object\<close>










subsection \<open>The two parsing passes\<close>

lemma analyze_direct:
  "jl (strip content) = Parsed j \<Longrightarrow>
   analyze_exception_and_generate_patch_with_raw jl fs (ApiContent (Some content))
   = (case build_proposal fs j of
        Inl e \<Rightarrow> Returns None
      | Inr p \<Rightarrow> Returns (Some (p, strip content)))"
  by (simp add: analyze_exception_and_generate_patch_with_raw_def)


lemma analyze_recovery:
  "jl (strip content) = DecodeError \<Longrightarrow>
   analyze_exception_and_generate_patch_with_raw jl fs (ApiContent (Some content))
   = (case search_fenced (strip content) of
        None \<Rightarrow> Returns None
      | Some g \<Rightarrow>
          (case jl g of
             DecodeError \<Rightarrow> Returns None
           | LoadsRaises \<Rightarrow> Returns None
           | Parsed j \<Rightarrow>
               (case build_proposal fs j of
                  Inl e \<Rightarrow> Returns None
                | Inr p \<Rightarrow> Returns (Some (p, strip content)))))"
  by (simp add: analyze_exception_and_generate_patch_with_raw_def Let_def)


text \<open>The generator raises only out of its outer handler, when the exception it caught
  cannot be printed; it never raises on a reply it received.\<close>

lemma analyze_reply_returns:
  "\<exists>r. analyze_exception_and_generate_patch_with_raw jl fs (ApiContent content) = Returns r"
  by (auto simp: analyze_exception_and_generate_patch_with_raw_def Let_def
      split: option.splits loads_result.splits sum.splits)

lemma analyze_api_error_unprintable:
  "analyze_exception_and_generate_patch_with_raw jl fs (ApiRaises (StrRaises e)) = Raises e"
  by (simp add: analyze_exception_and_generate_patch_with_raw_def api_error_handler_def)

subsection \<open>What a proposal is built from\<close>








lemma build_good_reply:
  "build_proposal fs (JObj [(''patch_code'', JStr good_patch),
       (''explanation'', JStr ''guard the zero divisor'')]) = Inr good_proposal"
  by (simp add: build_proposal_def dict_get_def good_proposal_def)

lemma loads_good:
  "example_json_loads good_reply = Parsed (JObj [(''patch_code'', JStr good_patch),
       (''explanation'', JStr ''guard the zero divisor'')])"
  by (simp add: example_json_loads_def)







text \<open>The two corners of the generator that the scenario does not reach: a blank that is
  not ASCII is stripped from the reply, and an integer confidence beyond the floats gives
  no proposal.\<close>

lemma strip_no_break_space: "strip (CHR 0xA0 # ''{}'' @ [CHR 0x85]) = ''{}''"
  by (simp add: strip_def lstrip_def rstrip_def is_space_def)

lemma build_proposal_overflow:
  "build_proposal fs (JObj [(''confidence'', JInt (10 ^ 400))]) = Inl OverflowError"
  by (simp add: build_proposal_def dict_get_def float_overflow_bound_def)


subsection \<open>The default confidence\<close>

lemma build_proposal_default_confidence:
  "build_proposal fs (JObj kvs) = Inr p \<Longrightarrow> map_of kvs ''confidence'' = None
   \<Longrightarrow> confidence p = Finite 0.5"
  by (auto simp: build_proposal_def dict_get_def split: option.splits)

text \<open>
  Claim C9, amended. When the payload the generator parses (the reply itself, or the
  fenced block of the recovery pass) is a JSON object without a \<open>confidence\<close> field and
  the generator returns a proposal, the confidence of that proposal is 0.5: the generator
  always passes \<open>float(patch_data.get('confidence', 0.5))\<close> to the constructor, so the
  default 0.8 of the class is never used.
\<close>

theorem generator_default_confidence:
  assumes "analyze_exception_and_generate_patch_with_raw jl fs (ApiContent (Some content))
             = Returns (Some (p, raw))"
    and "jl (strip content) = Parsed (JObj kvs)
         \<or> (jl (strip content) = DecodeError
             \<and> (\<exists>g. search_fenced (strip content) = Some g \<and> jl g = Parsed (JObj kvs)))"
    and "map_of kvs ''confidence'' = None"
  shows "confidence p = Finite 0.5"
proof -
  from assms(2) have "build_proposal fs (JObj kvs) = Inr p"
  proof
    assume "jl (strip content) = Parsed (JObj kvs)"
    with assms(1) show ?thesis
      by (simp add: analyze_direct split: sum.splits)
  next
    assume "jl (strip content) = DecodeError
             \<and> (\<exists>g. search_fenced (strip content) = Some g \<and> jl g = Parsed (JObj kvs))"
    with assms(1) show ?thesis
      by (auto simp: analyze_recovery split: sum.splits)
  qed
  then show ?thesis
    using assms(3) by (rule build_proposal_default_confidence)
qed

lemma strip_empty_object: "strip ''{}'' = ''{}''"
  by (simp add: strip_def lstrip_def rstrip_def is_space_def)

lemma loads_empty_object: "example_json_loads ''{}'' = Parsed (JObj [])"
  by (simp add: example_json_loads_def good_reply_def good_reply_body_def vague_reply_def)

lemma analyze_empty_object:
  "analyze_exception_and_generate_patch_with_raw example_json_loads example_float_of_str
     (ApiContent (Some ''{}''))
   = Returns (Some (\<lparr> patch_code = [], explanation = [], confidence = Finite 0.5,
                       test_cases = [] \<rparr>, ''{}''))"
  using analyze_direct [of example_json_loads "''{}''" "JObj []" example_float_of_str]
  by (simp add: strip_empty_object loads_empty_object build_proposal_def dict_get_def)

theorem generator_default_confidence_witness:
  "analyze_exception_and_generate_patch_with_raw example_json_loads example_float_of_str
     (ApiContent (Some ''{}''))
   = Returns (Some (\<lparr> patch_code = [], explanation = [], confidence = Finite 0.5,
                       test_cases = [] \<rparr>, ''{}''))
   \<and> example_json_loads (strip ''{}'') = Parsed (JObj [])
   \<and> map_of ([] :: (string \<times> json) list) ''confidence'' = None
   \<and> confidence \<lparr> patch_code = [], explanation = [], confidence = Finite 0.5,
                   test_cases = [] \<rparr>
       = Finite 0.5"
proof -
  have l: "example_json_loads (strip ''{}'') = Parsed (JObj [])"
    by (simp add: strip_empty_object loads_empty_object)
  have m: "map_of ([] :: (string \<times> json) list) ''confidence'' = None"
    by simp
  from generator_default_confidence [OF analyze_empty_object disjI1 m, OF l]
    analyze_empty_object l m
  show ?thesis by blast
qed

text \<open>
  Claim C9, as stated, fails: the payload \<^verbatim>\<open>{}\<close> parses as JSON and has no confidence
  field, and the proposal has confidence 0.5, not 0.8.
\<close>

theorem generator_default_confidence_counterexample:
  "example_json_loads ''{}'' = Parsed (JObj [])
   \<and> map_of ([] :: (string \<times> json) list) ''confidence'' = None
   \<and> analyze_exception_and_generate_patch_with_raw example_json_loads example_float_of_str
        (ApiContent (Some ''{}''))
      = Returns (Some (\<lparr> patch_code = [], explanation = [], confidence = Finite 0.5,
                          test_cases = [] \<rparr>, ''{}''))
   \<and> confidence \<lparr> patch_code = [], explanation = [], confidence = Finite 0.5,
                   test_cases = [] \<rparr>
       \<noteq> PatchProposal_default_confidence"
  by (simp add: analyze_empty_object loads_empty_object PatchProposal_default_confidence_def)


section \<open>Session logger: results\<close>

subsection \<open>Statistics\<close>

lemma sum_list_map_insort:
  "sum_list (map f (insort x xs)) = (f x :: int) + sum_list (map f xs)"
  by (induction xs) auto

lemma sum_list_map_sort: "sum_list (map f (sort xs)) = (sum_list (map f xs) :: int)"
  by (induction xs) (auto simp: sum_list_map_insort)

lemma count_successful_sum:
  "count_successful d files = sum_list (map (record_score d) files)"
  by (induction files) (auto simp: record_score_def split: option.splits file_entry.splits)

lemma record_score_entry:
  assumes "distinct (map fst d)" and "e \<in> set d"
  shows "record_score d (fst e) = (if successful_record e then 1 else 0)"
proof -
  from assms have "map_of d (fst e) = Some (snd e)"
    by (cases e) simp
  then show ?thesis
    by (cases e; cases "snd e") (auto simp: record_score_def)
qed

lemma sum_list_indicator:
  "sum_list (map (\<lambda>e. if P e then 1 else 0) xs) = int (length (filter P xs))"
  by (induction xs) auto

lemma list_debug_sessions_names:
  "list_debug_sessions (Some d) = rev (sort (map fst (session_records d)))"
  by (simp add: list_debug_sessions_def session_records_def filter_map comp_def)

lemma count_successful_records:
  assumes "distinct (map fst d)"
  shows "count_successful d (list_debug_sessions (Some d))
         = int (length (filter successful_record (session_records d)))"
proof -
  have "count_successful d (list_debug_sessions (Some d))
        = sum_list (map (record_score d) (map fst (session_records d)))"
    by (simp add: count_successful_sum list_debug_sessions_names rev_map [symmetric]
        sum_list_map_sort)
  also have "\<dots> = sum_list (map (\<lambda>e. if successful_record e then 1 else 0) (session_records d))"
    using assms by (auto simp: session_records_def record_score_entry intro!: arg_cong [where f = sum_list])
  also have "\<dots> = int (length (filter successful_record (session_records d)))"
    by (rule sum_list_indicator)
  finally show ?thesis .
qed

lemma get_session_stats_counts:
  assumes "distinct (map fst d)"
  shows "get_session_stats (Some d)
         = \<lparr> total_sessions = int (length (session_records d)),
             successful_sessions = int (length (filter successful_record (session_records d))),
             failed_sessions = int (length (session_records d))
                 - int (length (filter successful_record (session_records d))),
             success_rate =
               (if session_records d = [] then 0
                else real (length (filter successful_record (session_records d)))
                       / real (length (session_records d)) * 100) \<rparr>"
proof -
  have len: "length (list_debug_sessions (Some d)) = length (session_records d)"
    by (simp add: list_debug_sessions_names)
  then have ne: "(list_debug_sessions (Some d) = []) = (session_records d = [])"
    by (metis length_0_conv)
  show ?thesis
    by (cases "session_records d = []")
       (simp_all add: get_session_stats_def Let_def len ne count_successful_records [OF assms])
qed

text \<open>
  Claim C8, amended. For a log directory with distinct file names whose session records
  (the \<open>.md\<close> files) are exactly three, two of them readable and holding the marker
  \<^verbatim>\<open>**Status:** SUCCESS\<close>, \<open>get_session_stats\<close> returns total 3, successful 2, failed 1
  and the success rate \<open>2 / 3 * 100\<close>, not rounded; rounded to one decimal place, as the
  viewer prints it, that rate is 66.7. For an empty directory the rate is 0.
\<close>

theorem session_stats_three_records:
  assumes "distinct (map fst d)"
    and "length (session_records d) = 3"
    and "length (filter successful_record (session_records d)) = 2"
  shows "get_session_stats (Some d)
           = \<lparr> total_sessions = 3, successful_sessions = 2, failed_sessions = 1,
               success_rate = 200 / 3 \<rparr>
         \<and> round1 (success_rate (get_session_stats (Some d))) = 66.7
         \<and> success_rate (get_session_stats (Some [])) = 0"
proof -
  have nonempty: "session_records d \<noteq> []"
    using assms(2) by auto
  have stats: "get_session_stats (Some d)
           = \<lparr> total_sessions = 3, successful_sessions = 2, failed_sessions = 1,
               success_rate = 200 / 3 \<rparr>"
    using assms(2,3) nonempty by (simp add: get_session_stats_counts [OF assms(1)])
  have "round1 (200 / 3) = 66.7"
    by (simp add: round1_def)
  moreover have "success_rate (get_session_stats (Some [])) = 0"
    by (simp add: get_session_stats_def list_debug_sessions_def)
  ultimately show ?thesis
    by (simp add: stats)
qed

lemma three_sessions_records: "session_records three_sessions = three_sessions"
  by (simp add: session_records_def three_sessions_def ends_with_def)

lemma three_sessions_successful:
  "filter successful_record three_sessions
   = [(''calc_divide_1700000000.md'', Readable (record_banner True @ ''...'')),
      (''api_lookup_1700000100.md'', Readable (record_banner True @ ''...''))]"
  by (simp add: three_sessions_def success_marker_def record_banner_def status_text_def)

theorem session_stats_three_records_witness:
  "get_session_stats (Some three_sessions)
     = \<lparr> total_sessions = 3, successful_sessions = 2, failed_sessions = 1,
         success_rate = 200 / 3 \<rparr>
   \<and> round1 (success_rate (get_session_stats (Some three_sessions))) = 66.7
   \<and> success_rate (get_session_stats (Some [])) = 0"
proof -
  have d: "distinct (map fst three_sessions)"
    by (simp add: three_sessions_def)
  have n: "length (session_records three_sessions) = 3"
    by (simp add: three_sessions_records) (simp add: three_sessions_def)
  have s: "length (filter successful_record (session_records three_sessions)) = 2"
    by (simp add: three_sessions_records three_sessions_successful)
  from session_stats_three_records [OF d n s] show ?thesis .
qed

text \<open>
  Claim C8, as stated, fails in the rate: on the directory \<open>three_sessions\<close> (three
  records, two successful) the counts are 3, 2 and 1 and the rate returned is not 66.7.
\<close>

theorem session_stats_rounding_counterexample:
  "total_sessions (get_session_stats (Some three_sessions)) = 3
   \<and> successful_sessions (get_session_stats (Some three_sessions)) = 2
   \<and> failed_sessions (get_session_stats (Some three_sessions)) = 1
   \<and> success_rate (get_session_stats (Some three_sessions)) \<noteq> 66.7"
proof -
  have d: "distinct (map fst three_sessions)"
    by (simp add: three_sessions_def)
  show ?thesis
    by (simp add: get_session_stats_counts [OF d] three_sessions_records
        three_sessions_successful) (simp add: three_sessions_def)
qed


section \<open>Orchestrator: results\<close>

subsection \<open>The frame of the logging steps\<close>

lemma get_debug_logger_frame:
  "modules (snd (get_debug_logger h w)) = modules w"
  "patches_applied (snd (get_debug_logger h w)) = patches_applied w"
  "debug (snd (get_debug_logger h w)) = debug w"
  by (simp_all add: get_debug_logger_def split: option.splits)

lemma log_and_return_frame:
  "modules (snd (log_and_return h ctx proposal success raw err w)) = modules w"
  "patches_applied (snd (log_and_return h ctx proposal success raw err w)) = patches_applied w"
  "debug (snd (log_and_return h ctx proposal success raw err w)) = debug w"
  using get_debug_logger_frame [of h w]
  by (auto simp: log_and_return_def split: prod.splits bool.splits outcome.splits)

lemma llm_error_handler_frame:
  "modules (snd (llm_error_handler h ctx e w)) = modules w"
  "patches_applied (snd (llm_error_handler h ctx e w)) = patches_applied w"
  "debug (snd (llm_error_handler h ctx e w)) = debug w"
  using get_debug_logger_frame [of h w]
  by (auto simp: llm_error_handler_def split: prod.splits bool.splits outcome.splits)

lemma log_and_return_result:
  "fst (log_and_return h ctx proposal success raw err w) = Returns r
   \<Longrightarrow> r = of_bool_result success"
  by (auto simp: log_and_return_def split: prod.splits bool.splits outcome.splits)

lemma llm_error_handler_result:
  "fst (llm_error_handler h ctx e w) = Returns r \<Longrightarrow> r = RFalse"
  by (auto simp: llm_error_handler_def split: prod.splits bool.splits outcome.splits)

subsection \<open>The result of handle\<close>

lemma llm_try_true:
  assumes "fst (llm_try h ctx w) = Returns RTrue"
  shows "\<exists>proposal raw.
           analyze_exception_and_generate_patch_with_raw (json_loads h) (float_of_str h)
             (request h ctx) = Returns (Some (proposal, raw))
           \<and> fst (apply_llm_patch (debug w) (importer h) (module_attr h) (source_valid h)
                     (run_source h) ctx proposal (modules w)) = Returns True
           \<and> patches_applied (snd (llm_try h ctx w)) = patches_applied w + 1"
proof (cases "analyze_exception_and_generate_patch_with_raw (json_loads h) (float_of_str h)
                (request h ctx)")
  case (Returns x)
  show ?thesis
  proof (cases x)
    case None
    with assms Returns show ?thesis
      by (auto simp: llm_try_def dest: log_and_return_result)
  next
    case (Some pr)
    obtain proposal raw where pr: "pr = (proposal, raw)" by (cases pr)
    obtain r mods where a:
      "apply_llm_patch (debug w) (importer h) (module_attr h) (source_valid h)
         (run_source h) ctx proposal (modules w) = (r, mods)"
      by (cases "apply_llm_patch (debug w) (importer h) (module_attr h) (source_valid h)
         (run_source h) ctx proposal (modules w)")
    show ?thesis
    proof (cases r)
      case (Returns success)
      with assms \<open>analyze_exception_and_generate_patch_with_raw (json_loads h)
          (float_of_str h) (request h ctx) = Returns x\<close> Some pr a
      show ?thesis
        by (cases success)
           (auto simp: llm_try_def log_and_return_frame dest: log_and_return_result)
    qed (use assms \<open>analyze_exception_and_generate_patch_with_raw (json_loads h)
          (float_of_str h) (request h ctx) = Returns x\<close> Some pr a
         in \<open>simp_all add: llm_try_def\<close>)
  qed
qed (use assms in \<open>simp_all add: llm_try_def\<close>)

lemma llm_try_debug: "debug (snd (llm_try h ctx w)) = debug w"
  by (auto simp: llm_try_def log_and_return_frame
      split: outcome.splits option.splits prod.splits bool.splits)

lemma llm_try_not_none: "fst (llm_try h ctx w) \<noteq> Returns RNone"
proof
  assume a: "fst (llm_try h ctx w) = Returns RNone"
  have "of_bool_result b \<noteq> RNone" for b by (cases b) simp_all
  with a show False
    by (auto simp: llm_try_def
        split: outcome.splits option.splits prod.splits bool.splits if_splits
        dest!: log_and_return_result)
qed

lemma handle_snd: "snd (handle h exc tb w) = snd (handle_try h exc tb w)"
  by (cases "handle_try h exc tb w")
     (auto simp: handle_def split: outcome.splits)

lemma handle_true_iff:
  "fst (handle h exc tb w) = Returns RTrue \<longleftrightarrow> fst (handle_try h exc tb w) = Returns RTrue"
  by (cases "handle_try h exc tb w")
     (auto simp: handle_def split: outcome.splits)

lemma handle_try_true:
  assumes "fst (handle_try h exc tb w) = Returns RTrue"
  shows "llm_client h = ClientReady
         \<and> (\<exists>ctx. from_traceback (getline h) (format_exception h) exc tb = Returns ctx
                \<and> fst (llm_try h ctx w) = Returns RTrue
                \<and> snd (handle_try h exc tb w) = snd (llm_try h ctx w))"
proof (cases "debug_print (debug w) (describe_exception exc)")
  case (Returns u)
  note d = Returns
  show ?thesis
  proof (cases "from_traceback (getline h) (format_exception h) exc tb")
    case (Returns ctx)
    show ?thesis
    proof (cases "llm_client h")
      case ClientReady
      obtain r w1 where t: "llm_try h ctx w = (r, w1)" by (cases "llm_try h ctx w")
      from assms d Returns ClientReady t show ?thesis
        by (cases r)
           (auto simp: handle_try_def dest: llm_error_handler_result
              simp: llm_error_handler_result [of h ctx _ w1 RTrue])
    qed (use assms d Returns in \<open>simp_all add: handle_try_def\<close>)
  qed (use assms d in \<open>simp_all add: handle_try_def\<close>)
qed (use assms in \<open>simp_all add: handle_try_def\<close>)

text \<open>
  Claim C3. \<open>handle\<close> returns True only if the context was captured, a client was
  there, the generator returned a proposal for that context, and \<open>_apply_llm_patch\<close>
  returned True for that proposal on the module store \<open>handle\<close> was called in. So with
  no client, with no proposal, after a failed apply and after an internal fault the
  result is not True.
\<close>

theorem handle_true_only_if:
  assumes "fst (handle h exc tb w) = Returns RTrue"
  shows "llm_client h = ClientReady
         \<and> (\<exists>ctx proposal raw.
               from_traceback (getline h) (format_exception h) exc tb = Returns ctx
               \<and> analyze_exception_and_generate_patch_with_raw (json_loads h) (float_of_str h)
                   (request h ctx)
                 = Returns (Some (proposal, raw))
               \<and> fst (apply_llm_patch (debug w) (importer h) (module_attr h) (source_valid h)
                         (run_source h) ctx proposal (modules w)) = Returns True)"
proof -
  from assms have "fst (handle_try h exc tb w) = Returns RTrue"
    by (simp add: handle_true_iff)
  from handle_try_true [OF this] obtain ctx where
    c: "llm_client h = ClientReady"
    and f: "from_traceback (getline h) (format_exception h) exc tb = Returns ctx"
    and t: "fst (llm_try h ctx w) = Returns RTrue"
    by blast
  from llm_try_true [OF t] c f show ?thesis
    by blast
qed


text \<open>The frame of \<open>handle\<close>: the debug flag is never written, and the counter goes up
  by one with a True result.\<close>

lemma handle_try_debug: "debug (snd (handle_try h exc tb w)) = debug w"
proof -
  have "debug (snd (case llm_try h ctx w of
                      (Raises llm_error, w1) \<Rightarrow> llm_error_handler h ctx llm_error w1
                    | (r, w1) \<Rightarrow> (r, w1))) = debug w" for ctx
    using llm_try_debug [of h ctx w]
    by (cases "llm_try h ctx w")
       (auto simp: llm_error_handler_frame split: outcome.splits)
  then show ?thesis
    by (auto simp: handle_try_def split: outcome.splits client_status.splits)
qed

lemma handle_debug: "debug (snd (handle h exc tb w)) = debug w"
  by (simp add: handle_snd handle_try_debug)

lemma handle_true_counter:
  assumes "fst (handle h exc tb w) = Returns RTrue"
  shows "patches_applied (snd (handle h exc tb w)) = patches_applied w + 1"
proof -
  from assms have "fst (handle_try h exc tb w) = Returns RTrue"
    by (simp add: handle_true_iff)
  from handle_try_true [OF this] obtain ctx where
    t: "fst (llm_try h ctx w) = Returns RTrue"
    and s: "snd (handle_try h exc tb w) = snd (llm_try h ctx w)"
    by blast
  from llm_try_true [OF t] s show ?thesis
    by (auto simp: handle_snd)
qed

subsection \<open>The steps of handle, one by one\<close>

lemma debug_print_describe:
  "from_traceback gl fmt exc tb = Returns ctx
   \<Longrightarrow> debug_print dbg (describe_exception exc) = Returns ()"
  using from_traceback_returns_iff [of gl fmt exc tb]
  by (auto simp: debug_print_def)

lemma handle_ready:
  assumes "from_traceback (getline h) (format_exception h) exc tb = Returns ctx"
    and "llm_client h = ClientReady"
    and "llm_try h ctx w = (Returns r, w')"
  shows "handle h exc tb w = (Returns r, w')"
  using assms debug_print_describe [OF assms(1), of "debug w"]
  by (simp add: handle_def handle_try_def)

lemma handle_ready_raises:
  assumes "from_traceback (getline h) (format_exception h) exc tb = Returns ctx"
    and "llm_client h = ClientReady"
    and "llm_try h ctx w = (Raises e, w1)"
    and "llm_error_handler h ctx e w1 = (Returns r, w')"
  shows "handle h exc tb w = (Returns r, w')"
  using assms debug_print_describe [OF assms(1), of "debug w"]
  by (simp add: handle_def handle_try_def)



lemma llm_try_applied:
  assumes "analyze_exception_and_generate_patch_with_raw (json_loads h) (float_of_str h)
             (request h ctx) = Returns (Some (proposal, raw))"
    and "apply_llm_patch (debug w) (importer h) (module_attr h) (source_valid h)
           (run_source h) ctx proposal (modules w) = (Returns True, mods)"
  shows "llm_try h ctx w
         = log_and_return h ctx (Some proposal) True raw None
             (w\<lparr>modules := mods, patches_applied := patches_applied w + 1\<rparr>)"
  using assms by (simp add: llm_try_def)




subsection \<open>The session record\<close>

lemma starts_with_same_prefix: "starts_with (p @ q) (p @ xs) = starts_with q xs"
  by (induction p) auto

lemma markdown_head_banner:
  "starts_with (record_banner success) (markdown_head ts lv ctx success @ rest)"
  by (simp add: markdown_head_def text_lines_def record_banner_def starts_with_same_prefix)

lemma generate_debug_markdown_banner:
  assumes "format_local_vars dm (local_vars ctx) = Returns lv"
  shows "\<exists>content. generate_debug_markdown ts pc dm ctx proposal success raw err
                     = Returns content
                   \<and> starts_with (record_banner success) content"
  using assms markdown_head_banner
  by (simp add: generate_debug_markdown_def)


lemma log_ai_session_written:
  assumes "format_local_vars (dumps h) (local_vars ctx) = Returns lv"
    and "can_write h (session_filename ctx (time_now h))"
  shows "\<exists>content.
           log_ai_session h ctx proposal success raw err (Some d)
             = (Returns (Some (''debug/'' @ session_filename ctx (time_now h))),
                Some (write_file (session_filename ctx (time_now h)) content d))
           \<and> starts_with (record_banner success) content"
proof -
  from generate_debug_markdown_banner [OF assms(1)] obtain content where
    "generate_debug_markdown (timestamp h) (percent h) (dumps h) ctx proposal success raw err
       = Returns content"
    and "starts_with (record_banner success) content"
    by blast
  with assms(2) show ?thesis
    by (auto simp: log_ai_session_def Let_def)
qed

text \<open>The logger can be had when the log directory exists, or when it does not, no
  logger has been built yet and the directory can be created.\<close>

lemma get_debug_logger_ok:
  assumes "debug_dir w = Some d
           \<or> (debug_dir w = None \<and> \<not> logger_built w \<and> can_makedirs h \<and> d = [])"
  shows "\<exists>w1. get_debug_logger h w = (True, w1) \<and> debug_dir w1 = Some d"
  using assms by (auto simp: get_debug_logger_def)

lemma log_and_return_record:
  assumes "debug_dir w = Some d
           \<or> (debug_dir w = None \<and> \<not> logger_built w \<and> can_makedirs h \<and> d = [])"
    and "format_local_vars (dumps h) (local_vars ctx) = Returns lv"
    and "can_write h (session_filename ctx (time_now h))"
  shows "\<exists>content w'.
           log_and_return h ctx proposal success raw err w
             = (Returns (of_bool_result success), w')
           \<and> debug_dir w' = Some (write_file (session_filename ctx (time_now h)) content d)
           \<and> starts_with (record_banner success) content"
proof -
  from get_debug_logger_ok [OF assms(1)] obtain w1 where
    g: "get_debug_logger h w = (True, w1)" and d: "debug_dir w1 = Some d"
    by blast
  from log_ai_session_written [OF assms(2,3), of proposal success "Some raw" err d]
  obtain content where
    "log_ai_session h ctx proposal success (Some raw) err (Some d)
       = (Returns (Some (''debug/'' @ session_filename ctx (time_now h))),
          Some (write_file (session_filename ctx (time_now h)) content d))"
    and "starts_with (record_banner success) content"
    by blast
  with g d show ?thesis
    by (auto simp: log_and_return_def)
qed





subsection \<open>The scenario, handled\<close>

lemma example_from_traceback:
  "from_traceback (getline example_host) (format_exception example_host) example_exc
     (Some example_tb) = Returns example_ctx"
  by (simp add: from_traceback_def describe_exception_def example_host_def example_exc_def
      example_tb_def example_ctx_def source_window_def source_line_def upto.simps str_int_def
      digit_char_def rstrip_def is_space_def original_divide_def)

lemma strip_good_reply: "strip good_reply = good_reply"
proof -
  have "lstrip good_reply = good_reply"
    by (simp add: lstrip_def good_reply_def is_space_def)
  moreover have "rstrip good_reply = good_reply"
    by (simp add: rstrip_def good_reply_def is_space_def)
  ultimately show ?thesis by (simp add: strip_def)
qed

lemma example_analyze:
  "analyze_exception_and_generate_patch_with_raw example_json_loads example_float_of_str
     (ApiContent (Some good_reply)) = Returns (Some (good_proposal, good_reply))"
  using analyze_direct [of example_json_loads good_reply _ example_float_of_str]
  by (simp add: strip_good_reply loads_good build_good_reply)

lemma example_host_fields:
  "llm_client example_host = ClientReady"
  "request example_host ctx = ApiContent (Some good_reply)"
  "json_loads example_host = example_json_loads"
  "float_of_str example_host = example_float_of_str"
  "module_attr example_host = example_lookup"
  "source_valid example_host = example_source_valid"
  "run_source example_host = example_run_source"
  "can_makedirs example_host"
  "can_write example_host name"
  "dumps example_host vs = Returns ''{\"a\": 4, \"b\": 0}''"
  by (simp_all add: example_host_def)

lemma variant_host_fields:
  "llm_client keyless_host = ClientRaises"
  "getline keyless_host = getline example_host"
  "format_exception keyless_host = format_exception example_host"
  "llm_client unlogged_host = ClientReady"
  "request unlogged_host ctx = ApiContent (Some good_reply)"
  "json_loads unlogged_host = example_json_loads"
  "float_of_str unlogged_host = example_float_of_str"
  "module_attr unlogged_host = example_lookup"
  "source_valid unlogged_host = example_source_valid"
  "run_source unlogged_host = example_run_source"
  "getline unlogged_host = getline example_host"
  "format_exception unlogged_host = format_exception example_host"
  "\<not> can_makedirs unlogged_host"
  by (simp_all add: keyless_host_def unlogged_host_def example_host_def)

lemma example_world_fields:
  "modules example_world = example_modules"
  "debug_dir example_world = Some []"
  "patches_applied example_world = 0"
  "modules unlogged_world = example_modules"
  "debug_dir unlogged_world = None"
  "\<not> logger_built unlogged_world"
  "patches_applied unlogged_world = 0"
  by (simp_all add: example_world_def unlogged_world_def)

lemma example_format_local_vars:
  "format_local_vars (dumps example_host) (local_vars example_ctx)
   = Returns ''{\"a\": 4, \"b\": 0}''"
  by (simp add: format_local_vars_def example_host_fields example_ctx_def)

lemma example_handle_result:
  "fst (handle example_host example_exc (Some example_tb) example_world) = Returns RTrue"
proof -
  have t: "llm_try example_host example_ctx example_world
     = log_and_return example_host example_ctx (Some good_proposal) True good_reply None
         (example_world\<lparr>modules := example_modules(''__main__'' := [''divide'' \<mapsto> PyFunc good_patch]),
            patches_applied := patches_applied example_world + 1\<rparr>)"
    by (rule llm_try_applied)
       (simp_all add: example_host_fields example_analyze apply_good_proposal
          example_world_fields)
  have "debug_dir (example_world\<lparr>modules := example_modules(''__main__'' := [''divide'' \<mapsto> PyFunc good_patch]),
            patches_applied := patches_applied example_world + 1\<rparr>) = Some []
        \<or> (debug_dir (example_world\<lparr>modules := example_modules(''__main__'' := [''divide'' \<mapsto> PyFunc good_patch]),
            patches_applied := patches_applied example_world + 1\<rparr>) = None
           \<and> \<not> logger_built (example_world\<lparr>modules := example_modules(''__main__'' := [''divide'' \<mapsto> PyFunc good_patch]),
            patches_applied := patches_applied example_world + 1\<rparr>)
           \<and> can_makedirs example_host \<and> [] = [])"
    by (simp add: example_world_fields)
  from log_and_return_record [OF this example_format_local_vars example_host_fields(9),
      of "Some good_proposal" True good_reply None]
  obtain w' where
    "log_and_return example_host example_ctx (Some good_proposal) True good_reply None
         (example_world\<lparr>modules := example_modules(''__main__'' := [''divide'' \<mapsto> PyFunc good_patch]),
            patches_applied := patches_applied example_world + 1\<rparr>)
     = (Returns RTrue, w')"
    by auto
  with t have "llm_try example_host example_ctx example_world = (Returns RTrue, w')"
    by simp
  from handle_ready [OF example_from_traceback example_host_fields(1) this]
  show ?thesis by simp
qed

theorem handle_true_only_if_witness:
  "fst (handle example_host example_exc (Some example_tb) example_world) = Returns RTrue
   \<and> llm_client example_host = ClientReady
   \<and> (\<exists>ctx proposal raw.
         from_traceback (getline example_host) (format_exception example_host) example_exc
           (Some example_tb) = Returns ctx
         \<and> analyze_exception_and_generate_patch_with_raw (json_loads example_host)
             (float_of_str example_host) (request example_host ctx)
           = Returns (Some (proposal, raw))
         \<and> fst (apply_llm_patch (debug example_world) (importer example_host)
                   (module_attr example_host) (source_valid example_host)
                   (run_source example_host) ctx proposal (modules example_world))
             = Returns True)"
  using handle_true_only_if [OF example_handle_result] example_handle_result
  by simp

text \<open>
  Claim C10, at a failing input. The host \<open>unlogged_host\<close> and the process
  \<open>unlogged_world\<close> differ from the scenario in one thing: there is no log directory and
  none can be created, so \<open>get_debug_logger()\<close> raises. The patch is applied (\<open>divide\<close>
  is rebound) and \<open>patches_applied\<close> is incremented; then the logger call, which sits
  inside the \<open>try\<close> block, raises into \<open>except Exception as llm_error\<close>, and \<open>handle\<close>
  returns False. The result is not True and the counter has changed, where the claim says
  it is unchanged.
\<close>

theorem handle_counts_patch_but_returns_false:
  "fst (handle unlogged_host example_exc (Some example_tb) unlogged_world) = Returns RFalse
   \<and> patches_applied (snd (handle unlogged_host example_exc (Some example_tb) unlogged_world))
       = patches_applied unlogged_world + 1
   \<and> modules (snd (handle unlogged_host example_exc (Some example_tb) unlogged_world))
        ''__main__'' ''divide'' = Some (PyFunc good_patch)"
proof -
  let ?w = "unlogged_world\<lparr>modules := example_modules(''__main__'' := [''divide'' \<mapsto> PyFunc good_patch]),
            patches_applied := patches_applied unlogged_world + 1\<rparr>"
  have c: "from_traceback (getline unlogged_host) (format_exception unlogged_host) example_exc
     (Some example_tb) = Returns example_ctx"
    by (simp add: variant_host_fields example_from_traceback)
  have g: "get_debug_logger unlogged_host ?w = (False, ?w)"
    by (simp add: get_debug_logger_def variant_host_fields example_world_fields)
  have "llm_try unlogged_host example_ctx unlogged_world
     = log_and_return unlogged_host example_ctx (Some good_proposal) True good_reply None ?w"
    by (rule llm_try_applied)
       (simp_all add: variant_host_fields example_analyze apply_good_proposal
          example_world_fields)
  with g have t: "llm_try unlogged_host example_ctx unlogged_world = (Raises os_error, ?w)"
    by (simp add: log_and_return_def)
  from g have e: "llm_error_handler unlogged_host example_ctx os_error ?w = (Returns RFalse, ?w)"
    by (simp add: llm_error_handler_def os_error_def)
  from handle_ready_raises [OF c variant_host_fields(4) t e]
  show ?thesis
    by (simp add: example_world_fields)
qed


text \<open>Nor does a call that cannot capture the context: for an exception whose \<open>__str__\<close>
  raises, \<open>handle\<close> returns False from its outermost handler and nothing is logged,
  whatever the client and the log directory.\<close>

lemma handle_unprintable_logs_nothing:
  "handle h unprintable_exc tb w = (Returns RFalse, w)"
  by (simp add: handle_def handle_try_def debug_print_def describe_exception_def
      from_traceback_def unprintable_exc_def)


lemma example_session_filename:
  "session_filename example_ctx (time_now example_host) = ''calc_divide_1700000000.md''"
  by (simp add: session_filename_def example_ctx_def example_host_def extract_program_name_def
      basename_def splitext_root_def rsplit_head_def replace_char_def last_component_def
      str_int_def digit_char_def)


subsection \<open>The hook\<close>







text \<open>With the debug flag set, an exception whose \<open>__str__\<close> raises leaves the hook at its
  first print: \<open>handle\<close> is not called and nothing is presented by the handler found at
  installation.\<close>

lemma reflex_excepthook_unprintable:
  "debug (orchestrator p)
   \<Longrightarrow> uncaught h unprintable_exc tb (install_hook p) = (Raises (Message ''no text''), install_hook p)"
  by (simp add: uncaught_def install_hook_def debug_print_def describe_exception_def
      unprintable_exc_def)


end
